theory Spec2Isabelle
  imports Main "HOL-Library.Sublist"
begin

section \<open>Python values, dictionaries and exceptions\<close>

text \<open>
  The nodes receive their inputs as keyword arguments. A keyword-argument dictionary is an
  association list in insertion order (what \<^verbatim>\<open>kwargs.items()\<close> iterates over); the
  values the host passes for STRING, INT and BOOLEAN sockets are the scalars below.
  Strings are lists of characters; a character is a code point below 256.
\<close>

datatype pyval = PNone | PBool bool | PInt int | PStr string

type_synonym kwargs = "(string \<times> pyval) list"

text \<open>Python's truth value of a scalar (\<^verbatim>\<open>if v:\<close>).\<close>

fun truthy :: "pyval \<Rightarrow> bool" where
  "truthy PNone = False"
| "truthy (PBool b) = b"
| "truthy (PInt n) = (n \<noteq> 0)"
| "truthy (PStr s) = (s \<noteq> [])"

text \<open>\<^verbatim>\<open>d.get(k, default)\<close>; \<^verbatim>\<open>d.get(k)\<close> is \<open>dict_get d k PNone\<close>.\<close>

definition dict_get :: "(string \<times> 'v) list \<Rightarrow> string \<Rightarrow> 'v \<Rightarrow> 'v" where
  "dict_get d k dflt = (case map_of d k of None \<Rightarrow> dflt | Some v \<Rightarrow> v)"

text \<open>
  The exceptions that the modelled code raises, catches or lets through. An exception
  carries the text that \<^verbatim>\<open>str(e)\<close> gives.
\<close>

datatype py_error =
    InterruptProcessingException
  | IndexError string
  | KeyError string
  | ValueError string
  | TypeError string
  | FileNotFoundError string
  | OSError string
  | JSONDecodeError string
  | TemplateSyntaxError string
  | UndefinedError string
  | SecurityError string
  | MarkupError string

fun exc_str :: "py_error \<Rightarrow> string" where
  "exc_str InterruptProcessingException = ''''"
| "exc_str (IndexError m) = m"
| "exc_str (KeyError m) = m"
| "exc_str (ValueError m) = m"
| "exc_str (TypeError m) = m"
| "exc_str (FileNotFoundError m) = m"
| "exc_str (OSError m) = m"
| "exc_str (JSONDecodeError m) = m"
| "exc_str (TemplateSyntaxError m) = m"
| "exc_str (UndefinedError m) = m"
| "exc_str (SecurityError m) = m"
| "exc_str (MarkupError m) = m"

text \<open>
  \<^verbatim>\<open>str(v)\<close> of a scalar.
\<close>

definition digit :: "nat \<Rightarrow> char" where
  "digit n = ''0123456789'' ! n"

function str_nat :: "nat \<Rightarrow> string" where
  "str_nat n = (if n < 10 then [digit n] else str_nat (n div 10) @ [digit (n mod 10)])"
  by pat_completeness auto
termination
  by (relation "measure id") auto

declare str_nat.simps [simp del]

fun py_str :: "pyval \<Rightarrow> string" where
  "py_str PNone = ''None''"
| "py_str (PBool b) = (if b then ''True'' else ''False'')"
| "py_str (PInt n) = (if n < 0 then CHR ''-'' # str_nat (nat (- n)) else str_nat (nat n))"
| "py_str (PStr s) = s"

text \<open>
  \<^verbatim>\<open>format_string.py\<close> and \<^verbatim>\<open>random_choice.py\<close> replace the builtin \<^verbatim>\<open>print\<close> by the one
  of the \<^verbatim>\<open>rich\<close> library (\<^verbatim>\<open>from rich import print\<close>), which reads its text as console
  markup and raises \<^verbatim>\<open>MarkupError\<close> on a closing tag that closes nothing.
  \<^verbatim>\<open>random_choice.py\<close> colours its texts with \<^verbatim>\<open>termcolor.colored\<close>. Both libraries lie
  outside the repository: \<open>rich_print\<close> gives the exception that printing a text raises,
  if any, and \<open>colored\<close> the coloured text. The model has the calls whose text depends
  on the input; the calls that print a fixed text, and \<^verbatim>\<open>rich.pretty.pprint\<close>, which does
  not read markup, are left out.
\<close>

record console =
  rich_print :: "string \<Rightarrow> py_error option"
  colored :: "string \<Rightarrow> string list \<Rightarrow> string"

section \<open>CircuitBreaker\<close>

text \<open>
  \<^verbatim>\<open>
  def doit(self, trigger, **kwargs):
      if kwargs.get("status"):
          print(f"Circuit Breaker triggered")
          raise InterruptProcessingException()
      else:
          return (trigger,)
  \<close>
  The trigger is an opaque host value (an image); the result is the one-element tuple.
\<close>

definition doit :: "'a \<Rightarrow> kwargs \<Rightarrow> py_error + 'a list" where
  "doit trigger kwargs =
     (if truthy (dict_get kwargs ''status'' PNone)
      then Inl InterruptProcessingException
      else Inr [trigger])"

section \<open>RandomChoice\<close>

text \<open>
  Python's \<^verbatim>\<open>random\<close> module is a library outside the repository. The model takes its
  three operations as a record over the hidden generator state \<open>'g\<close>:
  \<^verbatim>\<open>random.seed(a)\<close> replaces the state by one computed from \<open>a\<close> alone,
  \<^verbatim>\<open>random.randrange(n)\<close> and the internal \<^verbatim>\<open>_randbelow(n)\<close> draw a number and advance
  the state. \<^verbatim>\<open>INPUT_TYPES\<close> declares the seed as an INT; \<^verbatim>\<open>random.seed\<close> accepts every
  scalar of \<open>pyval\<close>, so seeding is total.
\<close>

record 'g random_module =
  rnd_seed :: "pyval \<Rightarrow> 'g"
  rnd_randrange :: "'g \<Rightarrow> int \<Rightarrow> int \<times> 'g"
  rnd_randbelow :: "'g \<Rightarrow> nat \<Rightarrow> nat \<times> 'g"

text \<open>\<^verbatim>\<open>sys.maxsize\<close> on a 64-bit interpreter, \<open>2 ^ 63 - 1\<close>.\<close>

definition sys_maxsize :: int where
  "sys_maxsize = 9223372036854775807"

text \<open>
  \<^verbatim>\<open>
  def choice(self, seq):
      if not len(seq):
          raise IndexError('Cannot choose from an empty sequence')
      return seq[self._randbelow(len(seq))]
  \<close>
  An index outside the sequence raises \<^verbatim>\<open>IndexError\<close>, as the subscript would.
\<close>

definition choice :: "'g random_module \<Rightarrow> 'g \<Rightarrow> 'a list \<Rightarrow> (py_error + 'a) \<times> 'g" where
  "choice R g xs =
     (if xs = [] then (Inl (IndexError ''Cannot choose from an empty sequence''), g)
      else (let (i, g') = rnd_randbelow R g (length xs)
            in if i < length xs then (Inr (xs ! i), g')
               else (Inl (IndexError ''list index out of range''), g')))"

text \<open>
  \<^verbatim>\<open>
  def random_choice(self, **kwargs):
      (
          random.seed(kwargs.get("seed"))
          if kwargs.get("seed")
          else random.seed(random.randrange(sys.maxsize))
      )
      print(colored("\nRandom Choice", "white", "on_red"))
      input = [i for i in kwargs.items() if i[0] != "seed"]
      print(colored("Got these inputs:", "green"))
      pprint(input)
      try:
          choice = random.choice(input)[1]
          print(colored(f"Chose: {choice}\n", "green"))
          return (choice,)
      except Exception as e:
          raise e
  \<close>
  The function takes the generator state on entry and returns the state it leaves behind.
  An exception of the \<^verbatim>\<open>print\<close> in the \<^verbatim>\<open>try\<close> is raised again by the handler.
\<close>

definition random_choice ::
  "'g random_module \<Rightarrow> console \<Rightarrow> 'g \<Rightarrow> kwargs \<Rightarrow> (py_error + pyval list) \<times> 'g" where
  "random_choice R C g kwargs =
     (let g1 = (if truthy (dict_get kwargs ''seed'' PNone)
                then rnd_seed R (dict_get kwargs ''seed'' PNone)
                else rnd_seed R (PInt (fst (rnd_randrange R g sys_maxsize))));
          input = filter (\<lambda>i. fst i \<noteq> ''seed'') kwargs
      in case choice R g1 input of
           (Inl e, g2) \<Rightarrow> (Inl e, g2)
         | (Inr i, g2) \<Rightarrow>
             (case rich_print C (colored C (''Chose: '' @ py_str (snd i) @ [CHR 0x0A]) [''green'']) of
                Some e \<Rightarrow> (Inl e, g2)
              | None \<Rightarrow> (Inr [snd i], g2)))"

text \<open>
  A small linear congruential generator that implements the interface, used to evaluate
  the model on concrete inputs.
\<close>

definition lcg_next :: "int \<Rightarrow> int" where
  "lcg_next g = (g * 75 + 74) mod 65537"

fun lcg_of_seed :: "pyval \<Rightarrow> int" where
  "lcg_of_seed PNone = 0"
| "lcg_of_seed (PBool b) = (if b then 1 else 0)"
| "lcg_of_seed (PInt n) = abs n"
| "lcg_of_seed (PStr s) = int (length s)"

definition lcg :: "int random_module" where
  "lcg = \<lparr> rnd_seed = lcg_of_seed,
           rnd_randrange = (\<lambda>g n. (g mod n, lcg_next g)),
           rnd_randbelow = (\<lambda>g n. (nat (g mod int n), lcg_next g)) \<rparr>"

section \<open>Regular expressions as backtracking matchers\<close>

text \<open>
  \<^verbatim>\<open>_extract_keys\<close> scans the template with Python's \<^verbatim>\<open>re\<close> module. Its engine is a
  backtracking matcher: at a position it explores the alternatives of the pattern in
  priority order (a greedy quantifier tries the longest repetition first, a lazy one the
  shortest) and reports the first alternative that succeeds. A matcher here maps a
  position of the subject, given as the character before it (if any) and the text from it
  on, to the list of positions where the match can end, in that priority order; the head
  of the list is the engine's answer.
\<close>

type_synonym mstate = "char option \<times> string"
type_synonym matcher = "mstate \<Rightarrow> mstate list"

text \<open>
  \<^verbatim>\<open>\w\<close> (a letter, a digit or a numeric character of Unicode, or the underscore) and
  \<^verbatim>\<open>\s\<close> (also the characters that \<^verbatim>\<open>str.strip()\<close> removes), for patterns on \<^verbatim>\<open>str\<close>.
  A character is a code point below 256; the two classes are Python's on these code
  points.
\<close>

definition is_word :: "char \<Rightarrow> bool" where
  "is_word c =
     (let n = of_char c :: int
      in 48 \<le> n \<and> n \<le> 57 \<or> 65 \<le> n \<and> n \<le> 90 \<or> n = 95 \<or> 97 \<le> n \<and> n \<le> 122
         \<or> n = 170 \<or> 178 \<le> n \<and> n \<le> 179 \<or> n = 181 \<or> 185 \<le> n \<and> n \<le> 186
         \<or> 188 \<le> n \<and> n \<le> 190 \<or> 192 \<le> n \<and> n \<le> 214 \<or> 216 \<le> n \<and> n \<le> 246
         \<or> 248 \<le> n \<and> n \<le> 255)"

definition is_space :: "char \<Rightarrow> bool" where
  "is_space c = (c \<in> set [CHR 0x09, CHR 0x0A, CHR 0x0B, CHR 0x0C, CHR 0x0D,
                            CHR 0x1C, CHR 0x1D, CHR 0x1E, CHR 0x1F, CHR 0x20,
                            CHR 0x85, CHR 0xA0])"

text \<open>One character of a class; a literal character.\<close>

fun one :: "(char \<Rightarrow> bool) \<Rightarrow> matcher" where
  "one P (p, []) = []"
| "one P (p, c # cs) = (if P c then [(Some c, cs)] else [])"

definition lit :: "char \<Rightarrow> matcher" where
  "lit c = one (\<lambda>x. x = c)"

text \<open>Concatenation: every end of the first part is a start of the second.\<close>

definition seq :: "matcher \<Rightarrow> matcher \<Rightarrow> matcher" where
  "seq a b st = concat (map b (a st))"

text \<open>Greedy \<^verbatim>\<open>X*\<close> and \<^verbatim>\<open>X+\<close> over a character class, lazy \<^verbatim>\<open>X*?\<close>, greedy \<^verbatim>\<open>(?:r)?\<close>.\<close>

fun many :: "(char \<Rightarrow> bool) \<Rightarrow> matcher" where
  "many P (p, []) = [(p, [])]"
| "many P (p, c # cs) = (if P c then many P (Some c, cs) @ [(p, c # cs)] else [(p, c # cs)])"

definition many1 :: "(char \<Rightarrow> bool) \<Rightarrow> matcher" where
  "many1 P = seq (one P) (many P)"

fun few :: "(char \<Rightarrow> bool) \<Rightarrow> matcher" where
  "few P (p, []) = [(p, [])]"
| "few P (p, c # cs) = (p, c # cs) # (if P c then few P (Some c, cs) else [])"

definition opt :: "matcher \<Rightarrow> matcher" where
  "opt a st = a st @ [st]"

text \<open>\<^verbatim>\<open>\b\<close>: exactly one of the characters around the position is a word character.\<close>

fun wordb :: matcher where
  "wordb (p, s) =
     (if (case p of None \<Rightarrow> False | Some c \<Rightarrow> is_word c)
         \<noteq> (case s of [] \<Rightarrow> False | c # _ \<Rightarrow> is_word c)
      then [(p, s)] else [])"

text \<open>
  A pattern with one capturing group is given by the matchers of the part before the
  group, of the group and of the part after it. A match is reported as
  \<^verbatim>\<open>(group(0), group(1), end position)\<close>. A pattern without a group has the empty
  matcher \<open>nothing\<close> as its group.
\<close>

definition nothing :: matcher where
  "nothing st = [st]"

definition consumed :: "mstate \<Rightarrow> mstate \<Rightarrow> string" where
  "consumed st st' = take (length (snd st) - length (snd st')) (snd st)"

type_synonym pattern = "mstate \<Rightarrow> (string \<times> string \<times> mstate) list"

definition match_here :: "matcher \<Rightarrow> matcher \<Rightarrow> matcher \<Rightarrow> pattern" where
  "match_here a g b st =
     concat (map (\<lambda>s1.
       concat (map (\<lambda>s2.
         map (\<lambda>s3. (consumed st s3, consumed s1 s2, s3)) (b s2)) (g s1))) (a st))"

text \<open>
  \<^verbatim>\<open>re.finditer\<close>: the matches from left to right, not overlapping. At each position the
  first alternative of the pattern is taken; the scan resumes where the match ended, or
  one character further when nothing matched. (A match that consumes nothing also moves
  the scan one character on; none of the patterns below has such a match.)
  \<^verbatim>\<open>re.findall\<close> of a pattern with one group lists \<^verbatim>\<open>group(1)\<close> of the same matches.
\<close>

function finditer :: "pattern \<Rightarrow> mstate \<Rightarrow> (string \<times> string) list" where
  "finditer m (p, s) =
     (case m (p, s) of
        (g0, g1, (p', s')) # _ \<Rightarrow>
          (g0, g1) # (if length s' < length s then finditer m (p', s')
                      else (case s of [] \<Rightarrow> [] | c # cs \<Rightarrow> finditer m (Some c, cs)))
      | [] \<Rightarrow> (case s of [] \<Rightarrow> [] | c # cs \<Rightarrow> finditer m (Some c, cs)))"
  by pat_completeness auto
termination
  by (relation "measure (\<lambda>(m, p, s). length s)") auto

declare finditer.simps [simp del]

definition findall :: "pattern \<Rightarrow> string \<Rightarrow> string list" where
  "findall m s = map snd (finditer m (None, s))"

section \<open>FormatString: the class and its variable extraction\<close>

text \<open>
  The patterns of \<^verbatim>\<open>_extract_keys\<close> (here \<open>extract_keys\<close>), one for each of its loops:
  \<^verbatim>\<open>\{\{\s*([\w.]+)(?:\|[\w\s]+)?(?:\.[^\(\)]+\(\))?\s*\}\}\<close>,
  \<^verbatim>\<open>\{(\w+)\}\<close>, \<^verbatim>\<open>\{%.*?%\}\<close> (the dot matches everything but a newline), and the
  pattern \<^verbatim>\<open>\b(\w+)\|\b\<close> applied inside each control structure.
\<close>

definition jinja_expression :: pattern where
  "jinja_expression =
     match_here
       (seq (lit CHR ''{'') (seq (lit CHR ''{'') (many is_space)))
       (many1 (\<lambda>c. is_word c \<or> c = CHR ''.''))
       (seq (opt (seq (lit CHR ''|'') (many1 (\<lambda>c. is_word c \<or> is_space c))))
         (seq (opt (seq (lit CHR ''.'')
                     (seq (many1 (\<lambda>c. c \<noteq> CHR ''('' \<and> c \<noteq> CHR '')''))
                       (seq (lit CHR ''('') (lit CHR '')'')))))
           (seq (many is_space) (seq (lit CHR ''}'') (lit CHR ''}'')))))"

definition format_field :: pattern where
  "format_field = match_here (lit CHR ''{'') (many1 is_word) (lit CHR ''}'')"

definition control_structure :: pattern where
  "control_structure =
     match_here
       (seq (lit CHR ''{'') (seq (lit CHR ''%'')
         (seq (few (\<lambda>c. c \<noteq> CHR 0x0A)) (seq (lit CHR ''%'') (lit CHR ''}'')))))
       nothing nothing"

definition filtered_name :: pattern where
  "filtered_name = match_here wordb (many1 is_word) (seq (lit CHR ''|'') wordb)"

text \<open>
  The class attributes of \<^verbatim>\<open>FormatString\<close>. \<^verbatim>\<open>additional_context\<close> is kept by its keys,
  \<^verbatim>\<open>node_configs\<close> maps a node identifier to the configuration stored for it. The
  configurations are nested Python values.
\<close>

datatype pyobj =
    Val pyval
  | PList "pyobj list"
  | PTuple "pyobj list"
  | PDict "(string \<times> pyobj) list"

record FormatString_class =
  CATEGORY :: string
  FUNCTION :: string
  RETURN_TYPES :: "string list"
  RETURN_NAMES :: "string list"
  node_configs :: "string \<rightharpoonup> pyobj"
  additional_context :: "string list"

definition FormatString :: FormatString_class where
  "FormatString =
     \<lparr> CATEGORY = ''dv/string_operations'',
       FUNCTION = ''format_string'',
       RETURN_TYPES = [''STRING'', ''STRING''],
       RETURN_NAMES = [''formatted_string'', ''saved_file_path''],
       node_configs = Map.empty,
       additional_context = [''datetime'', ''now'', ''random'', ''math''] \<rparr>"

text \<open>\<^verbatim>\<open>s.split(c)[0]\<close>, \<^verbatim>\<open>s.strip()\<close> and \<^verbatim>\<open>s.startswith(t)\<close>.\<close>

definition split_first :: "char \<Rightarrow> string \<Rightarrow> string" where
  "split_first c s = takeWhile (\<lambda>x. x \<noteq> c) s"

definition strip :: "string \<Rightarrow> string" where
  "strip s = rev (dropWhile is_space (rev (dropWhile is_space s)))"

definition startswith :: "string \<Rightarrow> string \<Rightarrow> bool" where
  "startswith s t = (take (length t) s = t)"

text \<open>
  \<^verbatim>\<open>
  variables = []
  seen = set()

  def add_var(var):
      var = var.split('|')[0].split('.')[0].strip()
      if var not in seen and var not in FormatString.additional_context:
          seen.add(var)
          variables.append(var)
  \<close>
  The closure's two variables are passed as a pair.
\<close>

definition add_var ::
  "FormatString_class \<Rightarrow> string \<Rightarrow> string list \<times> string set \<Rightarrow> string list \<times> string set" where
  "add_var cls var0 st =
     (let var = strip (split_first CHR ''.'' (split_first CHR ''|'' var0))
      in if var \<notin> snd st \<and> var \<notin> set (additional_context cls)
         then (fst st @ [var], insert var (snd st))
         else st)"

text \<open>
  \<^verbatim>\<open>
  for match in re.finditer(<jinja expression>, template):
      add_var(match.group(1))
  for match in re.finditer(r'\{(\w+)\}', template):
      add_var(match.group(1))
  for structure in re.finditer(r'\{%.*?%\}', template):
      for var in re.findall(r'\b(\w+)\|\b', structure.group(0)):
          if not var.startswith('end') and var not in {'if', 'else', 'elif', 'for', 'in'}:
              add_var(var)
  return variables
  \<close>
\<close>

definition extract_keys :: "FormatString_class \<Rightarrow> string \<Rightarrow> string list" where
  "extract_keys cls template =
     (let st1 = fold (\<lambda>match. add_var cls (snd match))
                  (finditer jinja_expression (None, template)) ([], {});
          st2 = fold (\<lambda>match. add_var cls (snd match))
                  (finditer format_field (None, template)) st1;
          st3 = fold (\<lambda>structure.
                   fold (\<lambda>var st.
                          if \<not> startswith var ''end''
                             \<and> var \<notin> {''if'', ''else'', ''elif'', ''for'', ''in''}
                          then add_var cls var st else st)
                     (findall filtered_name (fst structure)))
                  (finditer control_structure (None, template)) st2
      in fst st3)"

section \<open>FormatString: formatting, saving and the node table\<close>

text \<open>\<^verbatim>\<open>d[k] = v\<close> on a dictionary: an existing key keeps its place, a new key goes last.\<close>

fun dict_set :: "string \<Rightarrow> 'v \<Rightarrow> (string \<times> 'v) list \<Rightarrow> (string \<times> 'v) list" where
  "dict_set k v [] = [(k, v)]"
| "dict_set k v (e # d) = (if fst e = k then (k, v) # d else e # dict_set k v d)"

text \<open>A dictionary built from a sequence of items (a comprehension, \<^verbatim>\<open>{**a, **b}\<close>).\<close>

definition dict_update :: "(string \<times> 'v) list \<Rightarrow> (string \<times> 'v) list \<Rightarrow> (string \<times> 'v) list" where
  "dict_update d items = fold (\<lambda>e. dict_set (fst e) (snd e)) items d"

definition dict_of :: "(string \<times> 'v) list \<Rightarrow> (string \<times> 'v) list" where
  "dict_of items = dict_update [] items"

text \<open>
  What lies outside the repository is taken as a record of operations: the host's output
  directory, \<^verbatim>\<open>os.path\<close>, \<^verbatim>\<open>str.format\<close>, the sandboxed Jinja2 environment, the console
  and the file system. \<open>'w\<close> is the state of the file system, \<open>'c\<close> what an open file
  holds. An operation on the file system returns the exception it raises, if any, and the
  new state. A value of the Jinja2 context is a module or function of
  \<^verbatim>\<open>additional_context\<close>, or a keyword argument.
\<close>

datatype ctxval = Builtin string | Value pyval

record ('w, 'c) host =
  get_output_directory :: string
  os_path_join :: "string \<Rightarrow> string \<Rightarrow> string"
  os_path_dirname :: "string \<Rightarrow> string"
  str_format :: "string \<Rightarrow> kwargs \<Rightarrow> py_error + string"
  jinja_render :: "string \<Rightarrow> (string \<times> ctxval) list \<Rightarrow> py_error + string"
  terminal :: console
  os_makedirs :: "'w \<Rightarrow> string \<Rightarrow> py_error option \<times> 'w"
  open_write :: "'w \<Rightarrow> string \<Rightarrow> py_error option \<times> 'w"
  json_dump :: "'w \<Rightarrow> string \<Rightarrow> pyobj \<Rightarrow> py_error option \<times> 'w"
  open_read :: "'w \<Rightarrow> string \<Rightarrow> py_error + 'c"
  json_load :: "'c \<Rightarrow> py_error + pyobj"

text \<open>
  \<^verbatim>\<open>
  if template_type == "Simple":
      formatted_string = template.format(**kwargs)
  else:  # Jinja2
      try:
          jinja_template = cls.jinja_env.from_string(template)
          context = {**cls.additional_context, **kwargs}
          formatted_string = jinja_template.render(**context)
      except exceptions.TemplateSyntaxError as e:
          formatted_string = f"Error in Jinja2 template: {str(e)}"
  \<close>
  Every other exception leaves the function.
\<close>

definition render_template ::
  "('w, 'c) host \<Rightarrow> FormatString_class \<Rightarrow> string \<Rightarrow> string \<Rightarrow> kwargs \<Rightarrow> py_error + string" where
  "render_template H cls template_type template kwargs =
     (if template_type = ''Simple'' then str_format H template kwargs
      else (let context = dict_update (map (\<lambda>k. (k, Builtin k)) (additional_context cls))
                            (map (\<lambda>e. (fst e, Value (snd e))) kwargs)
            in case jinja_render H template context of
                 Inl (TemplateSyntaxError e) \<Rightarrow> Inr (''Error in Jinja2 template: '' @ e)
               | r \<Rightarrow> r))"

text \<open>
  \<^verbatim>\<open>
  save_data = {
      "template_type": template_type,
      "template": template,
      "inputs": {k: kwargs.get(k, "") for k in keys}
  }
  \<close>
\<close>

definition save_data :: "string \<Rightarrow> string \<Rightarrow> string list \<Rightarrow> kwargs \<Rightarrow> pyobj" where
  "save_data template_type template keys kwargs =
     PDict [(''template_type'', Val (PStr template_type)),
            (''template'', Val (PStr template)),
            (''inputs'', PDict (dict_of (map (\<lambda>k. (k, Val (dict_get kwargs k (PStr '''')))) keys)))]"

text \<open>
  The body of the \<^verbatim>\<open>try\<close>:
  \<^verbatim>\<open>
  os.makedirs(os.path.dirname(save_path), exist_ok=True)
  with open(save_path, "w") as f:
      json.dump(save_data, f, indent=2, sort_keys=True)
  \<close>
\<close>

definition write_state :: "('w, 'c) host \<Rightarrow> 'w \<Rightarrow> string \<Rightarrow> pyobj \<Rightarrow> py_error option \<times> 'w" where
  "write_state H w path data =
     (case os_makedirs H w (os_path_dirname H path) of
        (Some e, w1) \<Rightarrow> (Some e, w1)
      | (None, w1) \<Rightarrow>
          (case open_write H w1 path of
             (Some e, w2) \<Rightarrow> (Some e, w2)
           | (None, w2) \<Rightarrow> json_dump H w2 path data))"

text \<open>
  \<^verbatim>\<open>
  keys = cls._extract_keys(template)
  <formatting>
  <save_data>
  if save_path:
      save_path = os.path.join(folder_paths.get_output_directory(), save_path)
      try:
          <write>
          print(f"Node state saved to: {save_path}")
      except Exception as e:
          print(f"Error saving node state: {str(e)}")
          save_path = ""  # Reset save_path if saving failed
  else:
      print("No save_path provided, node state not saved.")
  return tuple(str(kwargs.get(key, "")) for key in keys) + (formatted_string, save_path)
  \<close>
  The function returns the tuple, or the exception that leaves it, and the file system.
  An exception of the \<^verbatim>\<open>print\<close> in the \<^verbatim>\<open>try\<close> is handled like one of the write; an
  exception of the \<^verbatim>\<open>print\<close> in the handler leaves the function.
\<close>

definition format_string ::
  "('w, 'c) host \<Rightarrow> FormatString_class \<Rightarrow> 'w \<Rightarrow> string \<Rightarrow> string \<Rightarrow> string \<Rightarrow> kwargs
     \<Rightarrow> (py_error + string list) \<times> 'w" where
  "format_string H cls w template_type template save_path kwargs =
     (let keys = extract_keys cls template
      in case render_template H cls template_type template kwargs of
           Inl e \<Rightarrow> (Inl e, w)
         | Inr formatted_string \<Rightarrow>
             (let data = save_data template_type template keys kwargs;
                  values = map (\<lambda>key. py_str (dict_get kwargs key (PStr ''''))) keys
              in if save_path \<noteq> ''''
                 then (let path = os_path_join H (get_output_directory H) save_path;
                           (written, w') = write_state H w path data;
                           tried = (case written of
                                      Some e \<Rightarrow> Some e
                                    | None \<Rightarrow> rich_print (terminal H)
                                                (''Node state saved to: '' @ path))
                       in case tried of
                            None \<Rightarrow> (Inr (values @ [formatted_string, path]), w')
                          | Some e \<Rightarrow>
                              (case rich_print (terminal H)
                                      (''Error saving node state: '' @ exc_str e) of
                                 Some e' \<Rightarrow> (Inl e', w')
                               | None \<Rightarrow> (Inr (values @ [formatted_string, '''']), w')))
                 else (Inr (values @ [formatted_string, save_path]), w)))"

text \<open>
  \<^verbatim>\<open>
  keys = cls._extract_keys(template)
  config = {
      "inputs": {
          "template_type": (["Simple", "Jinja2"],),
          "template": ("STRING", {"multiline": True}),
          "save_path": ("STRING", {"default": ""}),
      },
      "outputs": [],
  }
  for key in keys:
      config["inputs"][key] = ("STRING", {"default": ""})
      config["outputs"].append({"name": key, "type": "STRING"})
  config["outputs"].extend([
      {"name": "formatted_string", "type": "STRING"},
      {"name": "saved_file_path", "type": "STRING"},
  ])
  cls.RETURN_TYPES = ("STRING",) * len(keys) + ("STRING", "STRING")
  cls.RETURN_NAMES = tuple(keys) + ("formatted_string", "saved_file_path")
  cls.node_configs[node_id] = config
  return config
  \<close>
  The function returns the configuration and the class with its attributes as assigned.
\<close>

definition string_input :: pyobj where
  "string_input = PTuple [Val (PStr ''STRING''), PDict [(''default'', Val (PStr ''''))]]"

definition output_socket :: "string \<Rightarrow> pyobj" where
  "output_socket name = PDict [(''name'', Val (PStr name)), (''type'', Val (PStr ''STRING''))]"

definition update_widget ::
  "FormatString_class \<Rightarrow> string \<Rightarrow> string \<Rightarrow> string \<Rightarrow> pyobj \<times> FormatString_class" where
  "update_widget cls node_id template_type template =
     (let keys = extract_keys cls template;
          inputs = fold (\<lambda>key. dict_set key string_input) keys
                     [(''template_type'', PTuple [PList [Val (PStr ''Simple''), Val (PStr ''Jinja2'')]]),
                      (''template'', PTuple [Val (PStr ''STRING''),
                                             PDict [(''multiline'', Val (PBool True))]]),
                      (''save_path'', string_input)];
          outputs = map output_socket keys
                      @ [output_socket ''formatted_string'', output_socket ''saved_file_path''];
          config = PDict [(''inputs'', PDict inputs), (''outputs'', PList outputs)]
      in (config,
          cls\<lparr> RETURN_TYPES := replicate (length keys) ''STRING'' @ [''STRING'', ''STRING''],
               RETURN_NAMES := keys @ [''formatted_string'', ''saved_file_path''],
               node_configs := (node_configs cls)(node_id \<mapsto> config) \<rparr>))"

text \<open>\<^verbatim>\<open>return cls.node_configs.get(node_id, {})\<close>\<close>

definition get_node_config :: "FormatString_class \<Rightarrow> string \<Rightarrow> pyobj" where
  "get_node_config cls node_id =
     (case node_configs cls node_id of None \<Rightarrow> PDict [] | Some config \<Rightarrow> config)"

text \<open>The class after a sequence of calls \<open>update_widget(node_id, template_type, template)\<close>.\<close>

fun update_widgets :: "FormatString_class \<Rightarrow> (string \<times> string \<times> string) list \<Rightarrow> FormatString_class" where
  "update_widgets cls [] = cls"
| "update_widgets cls (call # calls) =
     update_widgets (snd (update_widget cls (fst call) (fst (snd call)) (snd (snd call)))) calls"

text \<open>
  \<^verbatim>\<open>
  try:
      with open(file_path, "r") as f:
          load_data = json.load(f)
      return load_data
  except FileNotFoundError:
      return {}
  except Exception as e:
      print(f"Error loading node state: {e}")
      return {}
  \<close>
  An exception of the \<^verbatim>\<open>print\<close> in the second handler leaves the function.
\<close>

definition load_node_state :: "('w, 'c) host \<Rightarrow> 'w \<Rightarrow> string \<Rightarrow> py_error + pyobj" where
  "load_node_state H w file_path =
     (case (case open_read H w file_path of Inl e \<Rightarrow> Inl e | Inr f \<Rightarrow> json_load H f) of
        Inr load_data \<Rightarrow> Inr load_data
      | Inl (FileNotFoundError m) \<Rightarrow> Inr (PDict [])
      | Inl e \<Rightarrow>
          (case rich_print (terminal H) (''Error loading node state: '' @ exc_str e) of
             Some e' \<Rightarrow> Inl e'
           | None \<Rightarrow> Inr (PDict [])))"

subsection \<open>A console\<close>

text \<open>
  A console that stands in for \<^verbatim>\<open>rich\<close> and \<^verbatim>\<open>termcolor\<close>, used to evaluate the model on
  concrete inputs. A tag of console markup is an opening bracket, then a small letter,
  \<^verbatim>\<open>#\<close>, \<^verbatim>\<open>@\<close> or, in a closing tag, \<^verbatim>\<open>/\<close>, then the text up to the next closing bracket,
  if no opening bracket comes before it. At a closing tag when no tag is open \<^verbatim>\<open>print\<close>
  raises \<^verbatim>\<open>MarkupError\<close>: the tag has nothing to close if it names no style, and matches
  no open tag if it does; the name is the text after the \<^verbatim>\<open>/\<close> up to an equals sign,
  stripped. \<open>markup_print\<close> is \<^verbatim>\<open>print\<close> on the texts that hold no opening tag and no
  backslash. \<open>colored\<close> wraps the text in the escape sequences of the colour green.
\<close>

fun tag_text :: "string \<Rightarrow> string option" where
  "tag_text [] = None"
| "tag_text (c # cs) =
     (if c = CHR '']'' then Some []
      else if c = CHR ''['' then None
      else map_option ((#) c) (tag_text cs))"

fun closing_tag :: "string \<Rightarrow> (nat \<times> string) option" where
  "closing_tag [] = None"
| "closing_tag (c # cs) =
     (case (if prefix ''[/'' (c # cs) then tag_text (drop 1 cs) else None) of
        Some name \<Rightarrow> Some (0, name)
      | None \<Rightarrow> map_option (\<lambda>found. (Suc (fst found), snd found)) (closing_tag cs))"

definition markup_print :: "string \<Rightarrow> py_error option" where
  "markup_print text =
     (case closing_tag text of
        None \<Rightarrow> None
      | Some found \<Rightarrow>
          Some (MarkupError
            (if strip (split_first CHR ''='' (snd found)) = ''''
             then ''closing tag '' @ [CHR 0x27] @ ''[/]'' @ [CHR 0x27] @ '' at position ''
                    @ str_nat (fst found) @ '' has nothing to close''
             else ''closing tag '' @ [CHR 0x27] @ ''[/'' @ snd found @ '']'' @ [CHR 0x27]
                    @ '' at position '' @ str_nat (fst found)
                    @ '' doesn'' @ [CHR 0x27] @ ''t match any open tag'')))"

definition terminal_console :: console where
  "terminal_console =
     \<lparr> rich_print = markup_print,
       colored = (\<lambda>text attributes. [CHR 0x1B] @ ''[32m'' @ text @ [CHR 0x1B] @ ''[0m'') \<rparr>"

subsection \<open>A host in memory\<close>

text \<open>
  The operations over a file system kept in memory, used to evaluate the model: a file
  holds a JSON document or text that is not JSON; the paths in \<open>readonly\<close> cannot be
  opened for writing; a path that continues the path of a file cannot be opened. The
  exceptions carry the messages of the operating system. Paths follow \<^verbatim>\<open>posixpath\<close>.
  \<open>format_fields\<close> stands in for \<^verbatim>\<open>str.format\<close> on templates whose replacement fields are
  plain names (\<^verbatim>\<open>{name}\<close>, with \<^verbatim>\<open>{{\<close> and \<^verbatim>\<open>}}\<close> for braces), and \<open>render_plain\<close> for
  the Jinja2 environment on text without a brace, which is rendered as itself less one
  trailing newline; neither supports other templates.
\<close>

datatype disk_file = Json pyobj | NotJson string

definition posix_join :: "string \<Rightarrow> string \<Rightarrow> string" where
  "posix_join a b =
     (if take 1 b = ''/'' then b
      else if a = [] \<or> last a = CHR ''/'' then a @ b
      else a @ ''/'' @ b)"

definition posix_dirname :: "string \<Rightarrow> string" where
  "posix_dirname p =
     (let head = rev (dropWhile (\<lambda>c. c \<noteq> CHR ''/'') (rev p))
      in if head \<noteq> [] \<and> \<not> list_all (\<lambda>c. c = CHR ''/'') head
         then rev (dropWhile (\<lambda>c. c = CHR ''/'') (rev head))
         else head)"

fun format_fields :: "kwargs \<Rightarrow> string option \<Rightarrow> string \<Rightarrow> py_error + string" where
  "format_fields kw None [] = Inr []"
| "format_fields kw (Some f) [] = Inl (ValueError ''expected } before end of string'')"
| "format_fields kw None (c # cs) =
     (if c = CHR ''{'' then
        (case cs of
           d # ds \<Rightarrow> if d = CHR ''{''
                     then map_sum id ((#) CHR ''{'') (format_fields kw None ds)
                     else format_fields kw (Some []) cs
         | [] \<Rightarrow> Inl (ValueError ''Single { encountered in format string''))
      else if c = CHR ''}'' then
        (case cs of
           d # ds \<Rightarrow> if d = CHR ''}''
                     then map_sum id ((#) CHR ''}'') (format_fields kw None ds)
                     else Inl (ValueError ''Single } encountered in format string'')
         | [] \<Rightarrow> Inl (ValueError ''Single } encountered in format string''))
      else map_sum id ((#) c) (format_fields kw None cs))"
| "format_fields kw (Some f) (c # cs) =
     (if c = CHR ''}'' then
        (case map_of kw f of
           None \<Rightarrow> Inl (KeyError ([CHR 0x27] @ f @ [CHR 0x27]))
         | Some v \<Rightarrow> map_sum id ((@) (py_str v)) (format_fields kw None cs))
      else format_fields kw (Some (f @ [c])) cs)"

definition render_plain :: "string \<Rightarrow> (string \<times> ctxval) list \<Rightarrow> py_error + string" where
  "render_plain template context =
     (if CHR ''{'' \<in> set template then Inl (TemplateSyntaxError ''unexpected char'')
      else if template \<noteq> [] \<and> last template = CHR 0x0A then Inr (butlast template)
      else Inr template)"

definition os_message :: "string \<Rightarrow> string \<Rightarrow> string" where
  "os_message reason path = reason @ '': '' @ [CHR 0x27] @ path @ [CHR 0x27]"

definition memory_host :: "string list \<Rightarrow> ((string \<times> disk_file) list, disk_file) host" where
  "memory_host readonly =
     \<lparr> get_output_directory = ''/output'',
       os_path_join = posix_join,
       os_path_dirname = posix_dirname,
       str_format = (\<lambda>template kwargs. format_fields kwargs None template),
       jinja_render = render_plain,
       terminal = terminal_console,
       os_makedirs = (\<lambda>w d. (None, w)),
       open_write = (\<lambda>w path.
          if path \<in> set readonly
          then (Some (OSError (os_message ''[Errno 13] Permission denied'' path)), w)
          else (None, dict_set path (NotJson '''') w)),
       json_dump = (\<lambda>w path data. (None, dict_set path (Json data) w)),
       open_read = (\<lambda>w path.
          case map_of w path of
            Some f \<Rightarrow> Inr f
          | None \<Rightarrow>
              if list_ex (\<lambda>entry. prefix (fst entry @ ''/'') path) w
              then Inl (OSError (os_message ''[Errno 20] Not a directory'' path))
              else Inl (FileNotFoundError (os_message ''[Errno 2] No such file or directory'' path))),
       json_load = (\<lambda>f. case f of
            Json data \<Rightarrow> Inr data
          | NotJson t \<Rightarrow> Inl (JSONDecodeError ''Expecting value: line 1 column 1 (char 0)'')) \<rparr>"

section \<open>Properties of CircuitBreaker\<close>

text \<open>
  C3. \<open>doit\<close> raises the host's interrupt exception exactly when the \<^verbatim>\<open>status\<close> keyword
  argument is truthy; it raises nothing else; when \<^verbatim>\<open>status\<close> is falsy or absent it returns
  the one-element tuple holding the trigger unchanged.
\<close>

theorem doit_interrupt_iff_status:
  "(doit trigger kwargs = Inl InterruptProcessingException) = truthy (dict_get kwargs ''status'' PNone)
   \<and> (\<forall>e. doit trigger kwargs = Inl e \<longrightarrow> e = InterruptProcessingException)
   \<and> (\<not> truthy (dict_get kwargs ''status'' PNone) \<longrightarrow> doit trigger kwargs = Inr [trigger])
   \<and> (map_of kwargs ''status'' = None \<longrightarrow> doit trigger kwargs = Inr [trigger])"
  by (auto simp: doit_def dict_get_def)

theorem doit_interrupt_iff_status_witness:
  "doit (7::nat) [(''status'', PBool True)] = Inl InterruptProcessingException
   \<and> doit (7::nat) [(''status'', PBool False)] = Inr [7]
   \<and> doit (7::nat) [] = Inr [7]"
  using doit_interrupt_iff_status [of "7::nat" "[(''status'', PBool True)]"]
        doit_interrupt_iff_status [of "7::nat" "[(''status'', PBool False)]"]
        doit_interrupt_iff_status [of "7::nat" "[]"]
  by (simp add: dict_get_def)

section \<open>Properties of RandomChoice\<close>

lemma choice_member:
  assumes "xs \<noteq> []" and "fst (rnd_randbelow R g (length xs)) < length xs"
  shows "\<exists>x \<in> set xs. fst (choice R g xs) = Inr x"
  using assms by (auto simp: choice_def Let_def split: prod.splits)

lemma random_choice_outcome:
  assumes below: "\<forall>g n. 0 < n \<longrightarrow> fst (rnd_randbelow R g n) < n"
    and entry: "\<exists>i \<in> set kwargs. fst i \<noteq> ''seed''"
  shows "\<exists>i \<in> set kwargs. fst i \<noteq> ''seed'' \<and>
           fst (random_choice R C g kwargs) =
             (case rich_print C (colored C (''Chose: '' @ py_str (snd i) @ [CHR 0x0A]) [''green'']) of
                Some e \<Rightarrow> Inl e
              | None \<Rightarrow> Inr [snd i])"
proof -
  let ?input = "filter (\<lambda>i. fst i \<noteq> ''seed'') kwargs"
  let ?g1 = "if truthy (dict_get kwargs ''seed'' PNone)
             then rnd_seed R (dict_get kwargs ''seed'' PNone)
             else rnd_seed R (PInt (fst (rnd_randrange R g sys_maxsize)))"
  from entry have ne: "?input \<noteq> []"
    by (auto simp: filter_empty_conv)
  then have "0 < length ?input" by simp
  with below have "fst (rnd_randbelow R ?g1 (length ?input)) < length ?input" by blast
  from choice_member [OF ne this]
  obtain x where x: "x \<in> set ?input" and c: "fst (choice R ?g1 ?input) = Inr x" by blast
  from c have "fst (random_choice R C g kwargs) =
             (case rich_print C (colored C (''Chose: '' @ py_str (snd x) @ [CHR 0x0A]) [''green'']) of
                Some e \<Rightarrow> Inl e
              | None \<Rightarrow> Inr [snd x])"
    by (cases "choice R ?g1 ?input")
       (auto simp: random_choice_def Let_def split: sum.splits option.splits)
  with x show ?thesis by auto
qed

text \<open>
  C9. The claim has \<open>random_choice\<close> return a one-element tuple holding the value of a
  non-seed entry whenever there is one. The code does so only when \<^verbatim>\<open>rich\<close>'s \<^verbatim>\<open>print\<close>
  accepts the text \<^verbatim>\<open>Chose: <choice>\<close>: the call stands in the \<^verbatim>\<open>try\<close> before the
  \<^verbatim>\<open>return\<close>, and its exception is raised again. When the keyword arguments have an
  entry whose key is not \<^verbatim>\<open>seed\<close>, one such entry is chosen; \<open>random_choice\<close> returns the
  tuple of its value when the text is accepted and raises the exception of \<^verbatim>\<open>print\<close> when
  it is not.
\<close>

theorem random_choice_raises_when_print_raises:
  assumes below: "\<forall>g n. 0 < n \<longrightarrow> fst (rnd_randbelow R g n) < n"
    and entry: "\<exists>i \<in> set kwargs. fst i \<noteq> ''seed''"
  shows "\<exists>i \<in> set kwargs. fst i \<noteq> ''seed'' \<and>
           fst (random_choice R C g kwargs) =
             (case rich_print C (colored C (''Chose: '' @ py_str (snd i) @ [CHR 0x0A]) [''green'']) of
                Some e \<Rightarrow> Inl e
              | None \<Rightarrow> Inr [snd i])"
  using below entry by (rule random_choice_outcome)

theorem random_choice_raises_when_print_raises_witness:
  "fst (random_choice lcg terminal_console 5 [(''input1'', PStr ''[/]'')])
     = Inl (MarkupError (''closing tag '' @ [CHR 0x27] @ ''[/]'' @ [CHR 0x27]
                           @ '' at position 12 has nothing to close''))
   \<and> fst (random_choice lcg terminal_console 5 [(''seed'', PInt 7), (''input1'', PStr ''a'')])
     = Inr [PStr ''a'']
   \<and> fst (random_choice lcg terminal_console 5 [(''input1'', PStr ''[/INST]'')])
     = Inl (MarkupError (''closing tag '' @ [CHR 0x27] @ ''[/INST]'' @ [CHR 0x27]
                           @ '' at position 12 doesn'' @ [CHR 0x27] @ ''t match any open tag''))"
proof -
  have below: "\<forall>g n. 0 < n \<longrightarrow> fst (rnd_randbelow lcg g n) < n"
  proof (intro allI impI)
    fix g :: int and n :: nat
    assume "0 < n"
    then have "0 \<le> g mod int n" and "g mod int n < int n" by simp_all
    then show "fst (rnd_randbelow lcg g n) < n" by (simp add: lcg_def)
  qed
  have e1: "\<exists>i \<in> set [(''input1'', PStr ''[/]'')]. fst i \<noteq> ''seed''" by simp
  have e2: "\<exists>i \<in> set [(''seed'', PInt 7), (''input1'', PStr ''a'')]. fst i \<noteq> ''seed''" by simp
  have raises: "rich_print terminal_console
                  (colored terminal_console (''Chose: '' @ py_str (PStr ''[/]'') @ [CHR 0x0A]) [''green''])
     = Some (MarkupError (''closing tag '' @ [CHR 0x27] @ ''[/]'' @ [CHR 0x27]
                           @ '' at position 12 has nothing to close''))"
    by code_simp
  have prints: "rich_print terminal_console
                  (colored terminal_console (''Chose: '' @ py_str (PStr ''a'') @ [CHR 0x0A]) [''green''])
     = None"
    by code_simp
  from random_choice_raises_when_print_raises [OF below e1, of terminal_console 5]
  obtain i where "i \<in> set [(''input1'', PStr ''[/]'')]" and "fst i \<noteq> ''seed''"
    and "fst (random_choice lcg terminal_console 5 [(''input1'', PStr ''[/]'')]) =
          (case rich_print terminal_console
                  (colored terminal_console (''Chose: '' @ py_str (snd i) @ [CHR 0x0A]) [''green'']) of
             Some e \<Rightarrow> Inl e
           | None \<Rightarrow> Inr [snd i])"
    by blast
  moreover from this(1) have "i = (''input1'', PStr ''[/]'')" by simp
  ultimately have "fst (random_choice lcg terminal_console 5 [(''input1'', PStr ''[/]'')]) =
          (case rich_print terminal_console
                  (colored terminal_console (''Chose: '' @ py_str (PStr ''[/]'') @ [CHR 0x0A]) [''green'']) of
             Some e \<Rightarrow> Inl e
           | None \<Rightarrow> Inr [PStr ''[/]''])"
    by (simp only: snd_conv)
  then have 1: "fst (random_choice lcg terminal_console 5 [(''input1'', PStr ''[/]'')])
     = Inl (MarkupError (''closing tag '' @ [CHR 0x27] @ ''[/]'' @ [CHR 0x27]
                           @ '' at position 12 has nothing to close''))"
    unfolding raises by simp
  from random_choice_raises_when_print_raises [OF below e2, of terminal_console 5]
  obtain j where "j \<in> set [(''seed'', PInt 7), (''input1'', PStr ''a'')]" and "fst j \<noteq> ''seed''"
    and "fst (random_choice lcg terminal_console 5 [(''seed'', PInt 7), (''input1'', PStr ''a'')]) =
          (case rich_print terminal_console
                  (colored terminal_console (''Chose: '' @ py_str (snd j) @ [CHR 0x0A]) [''green'']) of
             Some e \<Rightarrow> Inl e
           | None \<Rightarrow> Inr [snd j])"
    by blast
  moreover from this(1,2) have "j = (''input1'', PStr ''a'')" by auto
  ultimately have "fst (random_choice lcg terminal_console 5 [(''seed'', PInt 7), (''input1'', PStr ''a'')]) =
          (case rich_print terminal_console
                  (colored terminal_console (''Chose: '' @ py_str (PStr ''a'') @ [CHR 0x0A]) [''green'']) of
             Some e \<Rightarrow> Inl e
           | None \<Rightarrow> Inr [PStr ''a''])"
    by (simp only: snd_conv)
  then have 2: "fst (random_choice lcg terminal_console 5 [(''seed'', PInt 7), (''input1'', PStr ''a'')])
     = Inr [PStr ''a'']"
    unfolding prints by simp
  have e3: "\<exists>i \<in> set [(''input1'', PStr ''[/INST]'')]. fst i \<noteq> ''seed''" by simp
  have unmatched: "rich_print terminal_console
                  (colored terminal_console (''Chose: '' @ py_str (PStr ''[/INST]'') @ [CHR 0x0A]) [''green''])
     = Some (MarkupError (''closing tag '' @ [CHR 0x27] @ ''[/INST]'' @ [CHR 0x27]
                           @ '' at position 12 doesn'' @ [CHR 0x27] @ ''t match any open tag''))"
    by code_simp
  from random_choice_raises_when_print_raises [OF below e3, of terminal_console 5]
  obtain k where "k \<in> set [(''input1'', PStr ''[/INST]'')]" and "fst k \<noteq> ''seed''"
    and "fst (random_choice lcg terminal_console 5 [(''input1'', PStr ''[/INST]'')]) =
          (case rich_print terminal_console
                  (colored terminal_console (''Chose: '' @ py_str (snd k) @ [CHR 0x0A]) [''green'']) of
             Some e \<Rightarrow> Inl e
           | None \<Rightarrow> Inr [snd k])"
    by blast
  moreover from this(1) have "k = (''input1'', PStr ''[/INST]'')" by simp
  ultimately have "fst (random_choice lcg terminal_console 5 [(''input1'', PStr ''[/INST]'')]) =
          (case rich_print terminal_console
                  (colored terminal_console (''Chose: '' @ py_str (PStr ''[/INST]'') @ [CHR 0x0A]) [''green'']) of
             Some e \<Rightarrow> Inl e
           | None \<Rightarrow> Inr [PStr ''[/INST]''])"
    by (simp only: snd_conv)
  then have 3: "fst (random_choice lcg terminal_console 5 [(''input1'', PStr ''[/INST]'')])
     = Inl (MarkupError (''closing tag '' @ [CHR 0x27] @ ''[/INST]'' @ [CHR 0x27]
                           @ '' at position 12 doesn'' @ [CHR 0x27] @ ''t match any open tag''))"
    unfolding unmatched by simp
  from 1 2 3 show ?thesis by blast
qed

text \<open>
  C10. With a truthy seed the result (and the generator state left behind) does not depend
  on the generator state on entry: two invocations with the same keyword arguments return
  the same choice (or raise the same exception). With a falsy seed (0, the declared
  default) or none, the generator is reseeded from a number drawn from the current
  generator state, and the result depends on that state: for the generator \<open>lcg\<close> two
  entry states give different choices for the same keyword arguments.
\<close>

theorem random_choice_deterministic_only_when_seeded:
  "(truthy (dict_get kwargs ''seed'' PNone) \<longrightarrow>
      (\<forall>g g'. random_choice R C g kwargs = random_choice R C g' kwargs))
   \<and> (dict_get kwargs ''seed'' PNone = PInt 0 \<or> map_of kwargs ''seed'' = None \<longrightarrow>
      random_choice R C g kwargs =
        (case choice R (rnd_seed R (PInt (fst (rnd_randrange R g sys_maxsize))))
                (filter (\<lambda>i. fst i \<noteq> ''seed'') kwargs) of
           (Inl e, g2) \<Rightarrow> (Inl e, g2)
         | (Inr i, g2) \<Rightarrow>
             (case rich_print C (colored C (''Chose: '' @ py_str (snd i) @ [CHR 0x0A]) [''green'']) of
                Some e \<Rightarrow> (Inl e, g2)
              | None \<Rightarrow> (Inr [snd i], g2))))
   \<and> fst (random_choice lcg terminal_console 0
            [(''seed'', PInt 0), (''input1'', PStr ''a''), (''input2'', PStr ''b'')])
       \<noteq> fst (random_choice lcg terminal_console 1
            [(''seed'', PInt 0), (''input1'', PStr ''a''), (''input2'', PStr ''b'')])
   \<and> fst (random_choice lcg terminal_console 0 [(''input1'', PStr ''a''), (''input2'', PStr ''b'')])
       \<noteq> fst (random_choice lcg terminal_console 1 [(''input1'', PStr ''a''), (''input2'', PStr ''b'')])"
proof (intro conjI impI allI)
  fix g g' assume "truthy (dict_get kwargs ''seed'' PNone)"
  then show "random_choice R C g kwargs = random_choice R C g' kwargs"
    by (simp add: random_choice_def)
next
  assume "dict_get kwargs ''seed'' PNone = PInt 0 \<or> map_of kwargs ''seed'' = None"
  then have "\<not> truthy (dict_get kwargs ''seed'' PNone)"
    by (auto simp: dict_get_def)
  then show "random_choice R C g kwargs =
        (case choice R (rnd_seed R (PInt (fst (rnd_randrange R g sys_maxsize))))
                (filter (\<lambda>i. fst i \<noteq> ''seed'') kwargs) of
           (Inl e, g2) \<Rightarrow> (Inl e, g2)
         | (Inr i, g2) \<Rightarrow>
             (case rich_print C (colored C (''Chose: '' @ py_str (snd i) @ [CHR 0x0A]) [''green'']) of
                Some e \<Rightarrow> (Inl e, g2)
              | None \<Rightarrow> (Inr [snd i], g2)))"
    by (simp add: random_choice_def)
next
  show "fst (random_choice lcg terminal_console 0
            [(''seed'', PInt 0), (''input1'', PStr ''a''), (''input2'', PStr ''b'')])
       \<noteq> fst (random_choice lcg terminal_console 1
            [(''seed'', PInt 0), (''input1'', PStr ''a''), (''input2'', PStr ''b'')])"
    by code_simp
next
  show "fst (random_choice lcg terminal_console 0 [(''input1'', PStr ''a''), (''input2'', PStr ''b'')])
       \<noteq> fst (random_choice lcg terminal_console 1 [(''input1'', PStr ''a''), (''input2'', PStr ''b'')])"
    by code_simp
qed

theorem random_choice_deterministic_only_when_seeded_witness:
  "truthy (dict_get [(''seed'', PInt 3), (''input1'', PStr ''a'')] ''seed'' PNone)
   \<and> random_choice lcg terminal_console 0 [(''seed'', PInt 3), (''input1'', PStr ''a'')]
       = random_choice lcg terminal_console 1 [(''seed'', PInt 3), (''input1'', PStr ''a'')]
   \<and> map_of [(''input1'', PStr ''a''), (''input2'', PStr ''b'')] ''seed'' = None
   \<and> random_choice lcg terminal_console 1 [(''input1'', PStr ''a''), (''input2'', PStr ''b'')]
       = (Inr [PStr ''b''], lcg_next 1)"
proof -
  have t: "truthy (dict_get [(''seed'', PInt 3), (''input1'', PStr ''a'')] ''seed'' PNone)"
    by (simp add: dict_get_def)
  have a: "map_of [(''input1'', PStr ''a''), (''input2'', PStr ''b'')] ''seed'' = None"
    by simp
  from random_choice_deterministic_only_when_seeded
         [of "[(''seed'', PInt 3), (''input1'', PStr ''a'')]" lcg terminal_console] t
  have 1: "random_choice lcg terminal_console 0 [(''seed'', PInt 3), (''input1'', PStr ''a'')]
       = random_choice lcg terminal_console 1 [(''seed'', PInt 3), (''input1'', PStr ''a'')]"
    by blast
  from random_choice_deterministic_only_when_seeded
         [of "[(''input1'', PStr ''a''), (''input2'', PStr ''b'')]" lcg terminal_console 1] a
  have "random_choice lcg terminal_console 1 [(''input1'', PStr ''a''), (''input2'', PStr ''b'')]
       = (case choice lcg (rnd_seed lcg (PInt (fst (rnd_randrange lcg 1 sys_maxsize))))
                (filter (\<lambda>i. fst i \<noteq> ''seed'') [(''input1'', PStr ''a''), (''input2'', PStr ''b'')]) of
           (Inl e, g2) \<Rightarrow> (Inl e, g2)
         | (Inr i, g2) \<Rightarrow>
             (case rich_print terminal_console
                     (colored terminal_console (''Chose: '' @ py_str (snd i) @ [CHR 0x0A]) [''green'']) of
                Some e \<Rightarrow> (Inl e, g2)
              | None \<Rightarrow> (Inr [snd i], g2)))"
    by blast
  moreover have "(case choice lcg (rnd_seed lcg (PInt (fst (rnd_randrange lcg 1 sys_maxsize))))
                (filter (\<lambda>i. fst i \<noteq> ''seed'') [(''input1'', PStr ''a''), (''input2'', PStr ''b'')]) of
           (Inl e, g2) \<Rightarrow> (Inl e, g2)
         | (Inr i, g2) \<Rightarrow>
             (case rich_print terminal_console
                     (colored terminal_console (''Chose: '' @ py_str (snd i) @ [CHR 0x0A]) [''green'']) of
                Some e \<Rightarrow> (Inl e, g2)
              | None \<Rightarrow> (Inr [snd i], g2))) = (Inr [PStr ''b''], lcg_next 1)"
    by code_simp
  ultimately have 2: "random_choice lcg terminal_console 1 [(''input1'', PStr ''a''), (''input2'', PStr ''b'')]
       = (Inr [PStr ''b''], lcg_next 1)"
    by simp
  from t a 1 2 show ?thesis by blast
qed

section \<open>Properties of the variable extraction\<close>

subsection \<open>What a match consumes\<close>

lemma one_D: "st' \<in> set (one P st) \<Longrightarrow> \<exists>c. snd st = c # snd st' \<and> P c"
  by (cases st; cases "snd st") (auto split: if_splits)

lemma lit_D: "st' \<in> set (lit c st) \<Longrightarrow> snd st = c # snd st'"
  unfolding lit_def by (drule one_D) auto

lemma seq_D: "st' \<in> set (seq a b st) \<Longrightarrow> \<exists>mid \<in> set (a st). st' \<in> set (b mid)"
  by (auto simp: seq_def)

lemma many_pair_D: "st' \<in> set (many P (p, s)) \<Longrightarrow> \<exists>w. s = w @ snd st' \<and> list_all P w"
proof (induction s arbitrary: p)
  case Nil
  then show ?case by simp
next
  case (Cons c cs)
  show ?case
  proof (cases "st' = (p, c # cs)")
    case True
    then show ?thesis by simp
  next
    case False
    with Cons.prems have "P c" and "st' \<in> set (many P (Some c, cs))"
      by (auto split: if_splits)
    from Cons.IH [OF this(2)] obtain w where "cs = w @ snd st'" "list_all P w" by blast
    with \<open>P c\<close> have "c # cs = (c # w) @ snd st' \<and> list_all P (c # w)" by simp
    then show ?thesis by blast
  qed
qed

lemma many_D: "st' \<in> set (many P st) \<Longrightarrow> \<exists>w. snd st = w @ snd st' \<and> list_all P w"
  using many_pair_D [of st' P "fst st" "snd st"] by simp

lemma few_pair_D: "st' \<in> set (few P (p, s)) \<Longrightarrow> \<exists>w. s = w @ snd st' \<and> list_all P w"
proof (induction s arbitrary: p)
  case Nil
  then show ?case by simp
next
  case (Cons c cs)
  show ?case
  proof (cases "st' = (p, c # cs)")
    case True
    then show ?thesis by simp
  next
    case False
    with Cons.prems have "P c" and "st' \<in> set (few P (Some c, cs))"
      by (auto split: if_splits)
    from Cons.IH [OF this(2)] obtain w where "cs = w @ snd st'" "list_all P w" by blast
    with \<open>P c\<close> have "c # cs = (c # w) @ snd st' \<and> list_all P (c # w)" by simp
    then show ?thesis by blast
  qed
qed

lemma few_D: "st' \<in> set (few P st) \<Longrightarrow> \<exists>w. snd st = w @ snd st' \<and> list_all P w"
  using few_pair_D [of st' P "fst st" "snd st"] by simp

lemma many1_D:
  assumes "st' \<in> set (many1 P st)"
  shows "\<exists>w. snd st = w @ snd st' \<and> w \<noteq> [] \<and> list_all P w"
proof -
  from assms obtain mid where m: "mid \<in> set (one P st)" and r: "st' \<in> set (many P mid)"
    unfolding many1_def by (blast dest: seq_D)
  from one_D [OF m] obtain c where c: "snd st = c # snd mid" "P c" by blast
  from many_D [OF r]
  obtain w where "snd mid = w @ snd st'" "list_all P w" by blast
  with c have "snd st = (c # w) @ snd st' \<and> c # w \<noteq> [] \<and> list_all P (c # w)" by simp
  then show ?thesis by blast
qed

lemma opt_D: "st' \<in> set (opt a st) \<Longrightarrow> st' = st \<or> st' \<in> set (a st)"
  by (auto simp: opt_def)

lemma wordb_D: "st' \<in> set (wordb st) \<Longrightarrow> st' = st"
  by (cases st) (auto split: if_splits)

lemma nothing_D: "st' \<in> set (nothing st) \<Longrightarrow> st' = st"
  by (simp add: nothing_def)

lemma consumed_append: "snd st = w @ snd st' \<Longrightarrow> consumed st st' = w"
  by (simp add: consumed_def)

lemma match_here_D:
  assumes "(g0, g1, st') \<in> set (match_here a g b st)"
  shows "\<exists>s1 s2. s1 \<in> set (a st) \<and> s2 \<in> set (g s1) \<and> st' \<in> set (b s2)
           \<and> g0 = consumed st st' \<and> g1 = consumed s1 s2"
  using assms by (auto simp: match_here_def)

lemma sublist_ConsI: "sublist xs ys \<Longrightarrow> sublist xs (y # ys)"
  by (simp add: sublist_Cons_right)

lemma sublist_append_suffixI: "sublist xs zs \<Longrightarrow> sublist xs (ys @ zs)"
  by (auto simp: sublist_def) (metis append.assoc)

lemma finditer_D:
  assumes sound: "\<And>st g0 g1 st'. (g0, g1, st') \<in> set (m st) \<Longrightarrow> snd st = g0 @ snd st' \<and> R g0 g1"
    and mem: "(g0, g1) \<in> set (finditer m (p, s))"
  shows "sublist g0 s \<and> R g0 g1"
  using mem
proof (induction "length s" arbitrary: p s rule: less_induct)
  case less
  have step: "sublist g0 s \<and> R g0 g1"
    if "(g0, g1) \<in> set (case s of [] \<Rightarrow> [] | c # cs \<Rightarrow> finditer m (Some c, cs))"
  proof (cases s)
    case Nil
    with that show ?thesis by simp
  next
    case (Cons c cs)
    with that have "(g0, g1) \<in> set (finditer m (Some c, cs))" by simp
    with less.hyps [of cs "Some c"] Cons have "sublist g0 cs \<and> R g0 g1" by simp
    with Cons show ?thesis by (simp add: sublist_ConsI)
  qed
  show ?case
  proof (cases "m (p, s)")
    case Nil
    with less.prems
    have "(g0, g1) \<in> set (case s of [] \<Rightarrow> [] | c # cs \<Rightarrow> finditer m (Some c, cs))"
      by (simp add: finditer.simps [of m p s])
    then show ?thesis by (rule step)
  next
    case (Cons h rest)
    obtain h0 h1 p' s' where h: "h = (h0, h1, (p', s'))" by (cases h) auto
    with Cons have "(h0, h1, (p', s')) \<in> set (m (p, s))" by simp
    from sound [OF this] have s: "s = h0 @ s'" and R: "R h0 h1" by simp_all
    from less.prems Cons h
    have mem: "(g0, g1) = (h0, h1) \<or>
      (g0, g1) \<in> set (if length s' < length s then finditer m (p', s')
                        else (case s of [] \<Rightarrow> [] | c # cs \<Rightarrow> finditer m (Some c, cs)))"
      by (simp add: finditer.simps [of m p s])
    show ?thesis
    proof (cases "(g0, g1) = (h0, h1)")
      case True
      with s R show ?thesis by auto
    next
      case False
      show ?thesis
      proof (cases "length s' < length s")
        case True
        with mem False have "(g0, g1) \<in> set (finditer m (p', s'))" by auto
        with less.hyps [OF True] have "sublist g0 s' \<and> R g0 g1" by simp
        with s show ?thesis by (auto intro: sublist_append_suffixI)
      next
        case nl: False
        with mem False
        have "(g0, g1) \<in> set (case s of [] \<Rightarrow> [] | c # cs \<Rightarrow> finditer m (Some c, cs))"
          by auto
        then show ?thesis by (rule step)
      qed
    qed
  qed
qed

subsection \<open>The shape of the matches of the four patterns\<close>

lemma jinja_before_D:
  assumes "s1 \<in> set (seq (lit CHR ''{'') (seq (lit CHR ''{'') (many is_space)) st)"
  shows "\<exists>ws. snd st = ''{{'' @ ws @ snd s1 \<and> list_all is_space ws"
proof -
  from seq_D [OF assms] obtain m1
    where m1: "m1 \<in> set (lit CHR ''{'' st)"
      and r1: "s1 \<in> set (seq (lit CHR ''{'') (many is_space) m1)" by blast
  from seq_D [OF r1] obtain m2
    where m2: "m2 \<in> set (lit CHR ''{'' m1)" and r2: "s1 \<in> set (many is_space m2)" by blast
  from many_D [OF r2] obtain ws where "snd m2 = ws @ snd s1" "list_all is_space ws" by blast
  with lit_D [OF m1] lit_D [OF m2] show ?thesis by auto
qed

lemma jinja_filter_D:
  assumes "st' \<in> set (opt (seq (lit CHR ''|'') (many1 P)) st)"
  shows "\<exists>w. snd st = w @ snd st'"
proof -
  from opt_D [OF assms] show ?thesis
  proof
    assume "st' = st"
    then show ?thesis by simp
  next
    assume "st' \<in> set (seq (lit CHR ''|'') (many1 P) st)"
    from seq_D [OF this] obtain m1
      where m1: "m1 \<in> set (lit CHR ''|'' st)" and r1: "st' \<in> set (many1 P m1)" by blast
    from many1_D [OF r1] obtain w where "snd m1 = w @ snd st'" by blast
    with lit_D [OF m1] have "snd st = (CHR ''|'' # w) @ snd st'" by simp
    then show ?thesis by blast
  qed
qed

lemma jinja_call_D:
  assumes "st' \<in> set (opt (seq (lit CHR ''.'') (seq (many1 P) (seq (lit CHR ''('') (lit CHR '')'')))) st)"
  shows "\<exists>w. snd st = w @ snd st'"
proof -
  from opt_D [OF assms] show ?thesis
  proof
    assume "st' = st"
    then show ?thesis by simp
  next
    assume "st' \<in> set (seq (lit CHR ''.'') (seq (many1 P) (seq (lit CHR ''('') (lit CHR '')''))) st)"
    from seq_D [OF this] obtain m1
      where m1: "m1 \<in> set (lit CHR ''.'' st)"
        and r1: "st' \<in> set (seq (many1 P) (seq (lit CHR ''('') (lit CHR '')'')) m1)" by blast
    from seq_D [OF r1] obtain m2
      where m2: "m2 \<in> set (many1 P m1)"
        and r2: "st' \<in> set (seq (lit CHR ''('') (lit CHR '')'') m2)" by blast
    from seq_D [OF r2] obtain m3
      where m3: "m3 \<in> set (lit CHR ''('' m2)" and r3: "st' \<in> set (lit CHR '')'' m3)" by blast
    from many1_D [OF m2] obtain w where "snd m1 = w @ snd m2" by blast
    with lit_D [OF m1] lit_D [OF m3] lit_D [OF r3]
    have "snd st = (CHR ''.'' # w @ ''()'') @ snd st'" by simp
    then show ?thesis by blast
  qed
qed

lemma jinja_after_D:
  assumes "st' \<in> set (seq (opt (seq (lit CHR ''|'') (many1 P)))
         (seq (opt (seq (lit CHR ''.'') (seq (many1 Q) (seq (lit CHR ''('') (lit CHR '')'')))))
           (seq (many is_space) (seq (lit CHR ''}'') (lit CHR ''}'')))) st)"
  shows "\<exists>tail. snd st = tail @ ''}}'' @ snd st'"
proof -
  from seq_D [OF assms] obtain m1
    where m1: "m1 \<in> set (opt (seq (lit CHR ''|'') (many1 P)) st)"
      and r1: "st' \<in> set (seq (opt (seq (lit CHR ''.'') (seq (many1 Q) (seq (lit CHR ''('') (lit CHR '')'')))))
           (seq (many is_space) (seq (lit CHR ''}'') (lit CHR ''}''))) m1)" by blast
  from seq_D [OF r1] obtain m2
    where m2: "m2 \<in> set (opt (seq (lit CHR ''.'') (seq (many1 Q) (seq (lit CHR ''('') (lit CHR '')'')))) m1)"
      and r2: "st' \<in> set (seq (many is_space) (seq (lit CHR ''}'') (lit CHR ''}'')) m2)" by blast
  from seq_D [OF r2] obtain m3
    where m3: "m3 \<in> set (many is_space m2)"
      and r3: "st' \<in> set (seq (lit CHR ''}'') (lit CHR ''}'') m3)" by blast
  from seq_D [OF r3] obtain m4
    where m4: "m4 \<in> set (lit CHR ''}'' m3)" and r4: "st' \<in> set (lit CHR ''}'' m4)" by blast
  from jinja_filter_D [OF m1] obtain w1 where w1: "snd st = w1 @ snd m1" by blast
  from jinja_call_D [OF m2] obtain w2 where w2: "snd m1 = w2 @ snd m2" by blast
  from many_D [OF m3] obtain w3 where w3: "snd m2 = w3 @ snd m3" by blast
  from w1 w2 w3 lit_D [OF m4] lit_D [OF r4]
  have "snd st = (w1 @ w2 @ w3) @ ''}}'' @ snd st'" by simp
  then show ?thesis by blast
qed

lemma jinja_expression_D:
  assumes "(g0, g1, st') \<in> set (jinja_expression st)"
  shows "snd st = g0 @ snd st' \<and>
         (\<exists>ws tail. g0 = ''{{'' @ ws @ g1 @ tail @ ''}}'' \<and> list_all is_space ws
            \<and> g1 \<noteq> [] \<and> list_all (\<lambda>c. is_word c \<or> c = CHR ''.'') g1)"
proof -
  from assms [unfolded jinja_expression_def] match_here_D
  obtain s1 s2 where s1: "s1 \<in> set (seq (lit CHR ''{'') (seq (lit CHR ''{'') (many is_space)) st)"
    and s2: "s2 \<in> set (many1 (\<lambda>c. is_word c \<or> c = CHR ''.'') s1)"
    and s3: "st' \<in> set (seq (opt (seq (lit CHR ''|'') (many1 (\<lambda>c. is_word c \<or> is_space c))))
         (seq (opt (seq (lit CHR ''.'')
                     (seq (many1 (\<lambda>c. c \<noteq> CHR ''('' \<and> c \<noteq> CHR '')''))
                       (seq (lit CHR ''('') (lit CHR '')'')))))
           (seq (many is_space) (seq (lit CHR ''}'') (lit CHR ''}'')))) s2)"
    and g0: "g0 = consumed st st'" and g1: "g1 = consumed s1 s2"
    by blast
  from jinja_before_D [OF s1] obtain ws
    where ws: "snd st = ''{{'' @ ws @ snd s1" "list_all is_space ws" by blast
  from many1_D [OF s2] obtain g
    where g: "snd s1 = g @ snd s2" "g \<noteq> []" "list_all (\<lambda>c. is_word c \<or> c = CHR ''.'') g" by blast
  from jinja_after_D [OF s3] obtain tail where tail: "snd s2 = tail @ ''}}'' @ snd st'" by blast
  from g g1 have "g1 = g" by (simp add: consumed_append)
  moreover from ws g tail have "snd st = (''{{'' @ ws @ g @ tail @ ''}}'') @ snd st'" by simp
  then have "consumed st st' = ''{{'' @ ws @ g @ tail @ ''}}''" by (rule consumed_append)
  ultimately show ?thesis using ws g tail g0 by auto
qed

lemma format_field_D:
  assumes "(g0, g1, st') \<in> set (format_field st)"
  shows "snd st = g0 @ snd st' \<and> g0 = ''{'' @ g1 @ ''}'' \<and> g1 \<noteq> [] \<and> list_all is_word g1"
proof -
  from assms [unfolded format_field_def] match_here_D
  obtain s1 s2 where s1: "s1 \<in> set (lit CHR ''{'' st)"
    and s2: "s2 \<in> set (many1 is_word s1)"
    and s3: "st' \<in> set (lit CHR ''}'' s2)"
    and g0: "g0 = consumed st st'" and g1: "g1 = consumed s1 s2"
    by blast
  from many1_D [OF s2] obtain g
    where g: "snd s1 = g @ snd s2" "g \<noteq> []" "list_all is_word g" by blast
  from g g1 have "g1 = g" by (simp add: consumed_append)
  moreover from lit_D [OF s1] lit_D [OF s3] g
  have "snd st = (''{'' @ g @ ''}'') @ snd st'" by simp
  then have "consumed st st' = ''{'' @ g @ ''}''" by (rule consumed_append)
  ultimately show ?thesis using g g0 lit_D [OF s1] lit_D [OF s3] by auto
qed

lemma control_structure_D:
  assumes "(g0, g1, st') \<in> set (control_structure st)"
  shows "snd st = g0 @ snd st' \<and> (\<exists>mid. g0 = ''{%'' @ mid @ ''%}'')"
proof -
  from assms [unfolded control_structure_def] match_here_D
  obtain s1 s2 where s1: "s1 \<in> set (seq (lit CHR ''{'') (seq (lit CHR ''%'')
         (seq (few (\<lambda>c. c \<noteq> CHR 0x0A)) (seq (lit CHR ''%'') (lit CHR ''}'')))) st)"
    and s2: "s2 \<in> set (nothing s1)"
    and s3: "st' \<in> set (nothing s2)"
    and g0: "g0 = consumed st st'"
    by blast
  from nothing_D [OF s2] nothing_D [OF s3] have e: "st' = s1" by simp
  from seq_D [OF s1] obtain m1 where m1: "m1 \<in> set (lit CHR ''{'' st)"
    and r1: "s1 \<in> set (seq (lit CHR ''%'')
         (seq (few (\<lambda>c. c \<noteq> CHR 0x0A)) (seq (lit CHR ''%'') (lit CHR ''}''))) m1)" by blast
  from seq_D [OF r1] obtain m2 where m2: "m2 \<in> set (lit CHR ''%'' m1)"
    and r2: "s1 \<in> set (seq (few (\<lambda>c. c \<noteq> CHR 0x0A)) (seq (lit CHR ''%'') (lit CHR ''}'')) m2)" by blast
  from seq_D [OF r2] obtain m3 where m3: "m3 \<in> set (few (\<lambda>c. c \<noteq> CHR 0x0A) m2)"
    and r3: "s1 \<in> set (seq (lit CHR ''%'') (lit CHR ''}'') m3)" by blast
  from seq_D [OF r3] obtain m4 where m4: "m4 \<in> set (lit CHR ''%'' m3)"
    and r4: "s1 \<in> set (lit CHR ''}'' m4)" by blast
  from few_D [OF m3] obtain mid where "snd m2 = mid @ snd m3" by blast
  with lit_D [OF m1] lit_D [OF m2] lit_D [OF m4] lit_D [OF r4] e
  have s: "snd st = (''{%'' @ mid @ ''%}'') @ snd st'" by simp
  then have "consumed st st' = ''{%'' @ mid @ ''%}''" by (rule consumed_append)
  with s g0 show ?thesis by auto
qed

lemma filtered_name_D:
  assumes "(g0, g1, st') \<in> set (filtered_name st)"
  shows "snd st = g0 @ snd st' \<and> g0 = g1 @ ''|'' \<and> g1 \<noteq> [] \<and> list_all is_word g1"
proof -
  from assms [unfolded filtered_name_def] match_here_D
  obtain s1 s2 where s1: "s1 \<in> set (wordb st)"
    and s2: "s2 \<in> set (many1 is_word s1)"
    and s3: "st' \<in> set (seq (lit CHR ''|'') wordb s2)"
    and g0: "g0 = consumed st st'" and g1: "g1 = consumed s1 s2"
    by blast
  from wordb_D [OF s1] have e: "s1 = st" .
  from many1_D [OF s2] obtain g
    where g: "snd s1 = g @ snd s2" "g \<noteq> []" "list_all is_word g" by blast
  from seq_D [OF s3] obtain m1 where m1: "m1 \<in> set (lit CHR ''|'' s2)"
    and r1: "st' \<in> set (wordb m1)" by blast
  from wordb_D [OF r1] have e': "st' = m1" .
  from g g1 have "g1 = g" by (simp add: consumed_append)
  moreover from lit_D [OF m1] g e e'
  have s: "snd st = (g @ ''|'') @ snd st'" by simp
  then have "consumed st st' = g @ ''|''" by (rule consumed_append)
  ultimately show ?thesis using g g0 s by auto
qed

subsection \<open>Normalisation of a captured name and the loop invariant\<close>

lemma is_word_cases:
  "is_word c \<Longrightarrow> \<not> is_space c \<and> c \<noteq> CHR ''|'' \<and> c \<noteq> CHR ''.''"
  by (auto simp: is_word_def is_space_def Let_def)

lemma strip_no_space: "list_all (\<lambda>c. \<not> is_space c) xs \<Longrightarrow> strip xs = xs"
proof -
  have drop: "dropWhile is_space ys = ys" if "list_all (\<lambda>c. \<not> is_space c) ys" for ys
    using that by (cases ys) auto
  assume a: "list_all (\<lambda>c. \<not> is_space c) xs"
  then have "list_all (\<lambda>c. \<not> is_space c) (rev xs)" by (simp add: list_all_iff)
  with a show ?thesis by (simp add: strip_def drop)
qed

lemma normalise_word:
  assumes "list_all is_word v"
  shows "strip (split_first CHR ''.'' (split_first CHR ''|'' v)) = v"
proof -
  from assms have "\<forall>c \<in> set v. c \<noteq> CHR ''|'' \<and> c \<noteq> CHR ''.'' \<and> \<not> is_space c"
    by (auto simp: list_all_iff dest: is_word_cases)
  then have a: "takeWhile (\<lambda>x. x \<noteq> CHR ''|'') v = v"
    and b: "takeWhile (\<lambda>x. x \<noteq> CHR ''.'') v = v"
    and c: "list_all (\<lambda>c. \<not> is_space c) v"
    by (simp_all add: list_all_iff)
  show ?thesis by (simp only: split_first_def a b strip_no_space [OF c])
qed

lemma normalise_dotted:
  assumes "list_all (\<lambda>c. is_word c \<or> c = CHR ''.'') g"
  shows "\<exists>r. g = strip (split_first CHR ''.'' (split_first CHR ''|'' g)) @ r"
proof -
  let ?n = "takeWhile (\<lambda>x. x \<noteq> CHR ''.'') g"
  from assms have "\<forall>c \<in> set g. c \<noteq> CHR ''|''"
    by (auto simp: list_all_iff dest: is_word_cases)
  then have 1: "takeWhile (\<lambda>x. x \<noteq> CHR ''|'') g = g"
    by simp
  have "\<forall>c \<in> set ?n. is_word c"
  proof
    fix c assume c: "c \<in> set ?n"
    then have "c \<in> set g" and "c \<noteq> CHR ''.''"
      by (auto dest: set_takeWhileD)
    with assms show "is_word c" by (auto simp: list_all_iff)
  qed
  then have "list_all (\<lambda>c. \<not> is_space c) ?n"
    by (auto simp: list_all_iff dest: is_word_cases)
  then have 2: "strip ?n = ?n" by (rule strip_no_space)
  have "strip (split_first CHR ''.'' (split_first CHR ''|'' g)) = ?n"
    by (simp only: split_first_def 1 2)
  moreover have "g = ?n @ dropWhile (\<lambda>x. x \<noteq> CHR ''.'') g" by simp
  ultimately show ?thesis by metis
qed

lemma if_preserves: "P a \<Longrightarrow> P b \<Longrightarrow> P (if c then a else b)"
  by simp

lemma fold_invariant:
  assumes "\<And>x st. x \<in> set xs \<Longrightarrow> P st \<Longrightarrow> P (f x st)" and "P st"
  shows "P (fold f xs st)"
  using assms by (induction xs arbitrary: st) auto

lemma add_var_invariant:
  assumes "distinct (fst st) \<and> snd st = set (fst st)
           \<and> (\<forall>n \<in> set (fst st). n \<notin> set (additional_context cls) \<and> Q n)"
    and "Q (strip (split_first CHR ''.'' (split_first CHR ''|'' v)))"
  shows "distinct (fst (add_var cls v st)) \<and> snd (add_var cls v st) = set (fst (add_var cls v st))
           \<and> (\<forall>n \<in> set (fst (add_var cls v st)). n \<notin> set (additional_context cls) \<and> Q n)"
  using assms by (auto simp: add_var_def Let_def)

lemma jinja_match_occurs:
  assumes "(g0, g1) \<in> set (finditer jinja_expression (None, t))"
  shows "\<exists>ws rest. list_all is_space ws \<and>
    sublist (''{{'' @ ws @ strip (split_first CHR ''.'' (split_first CHR ''|'' g1)) @ rest @ ''}}'') t"
proof -
  from finditer_D [of jinja_expression
      "\<lambda>g0 g1. \<exists>ws tail. g0 = ''{{'' @ ws @ g1 @ tail @ ''}}'' \<and> list_all is_space ws
            \<and> g1 \<noteq> [] \<and> list_all (\<lambda>c. is_word c \<or> c = CHR ''.'') g1", OF _ assms]
    jinja_expression_D
  obtain ws tail where sub: "sublist g0 t" and g0: "g0 = ''{{'' @ ws @ g1 @ tail @ ''}}''"
    and ws: "list_all is_space ws" and g1: "list_all (\<lambda>c. is_word c \<or> c = CHR ''.'') g1"
    by blast
  from normalise_dotted [OF g1] obtain r
    where "g1 = strip (split_first CHR ''.'' (split_first CHR ''|'' g1)) @ r" by blast
  with g0 have "g0 = ''{{'' @ ws @ strip (split_first CHR ''.'' (split_first CHR ''|'' g1)) @ (r @ tail) @ ''}}''"
    by simp
  with sub ws show ?thesis by metis
qed

lemma format_match_occurs:
  assumes "(g0, g1) \<in> set (finditer format_field (None, t))"
  shows "sublist (''{'' @ strip (split_first CHR ''.'' (split_first CHR ''|'' g1)) @ ''}'') t"
proof -
  from finditer_D [of format_field
      "\<lambda>g0 g1. g0 = ''{'' @ g1 @ ''}'' \<and> g1 \<noteq> [] \<and> list_all is_word g1", OF _ assms]
    format_field_D
  have "sublist g0 t" and "g0 = ''{'' @ g1 @ ''}''" and "list_all is_word g1"
    by blast+
  then show ?thesis by (simp add: normalise_word)
qed

lemma control_match_occurs:
  assumes "(g0, g1) \<in> set (finditer control_structure (None, t))"
    and "v \<in> set (findall filtered_name g0)"
  shows "strip (split_first CHR ''.'' (split_first CHR ''|'' v)) = v \<and>
    (\<exists>mid. sublist (''{%'' @ mid @ ''%}'') t \<and> sublist (v @ ''|'') (''{%'' @ mid @ ''%}''))"
proof -
  from finditer_D [of control_structure "\<lambda>g0 g1. \<exists>mid. g0 = ''{%'' @ mid @ ''%}''", OF _ assms(1)]
    control_structure_D
  obtain mid where sub: "sublist g0 t" and g0: "g0 = ''{%'' @ mid @ ''%}''" by blast
  from assms(2) obtain h0 where "(h0, v) \<in> set (finditer filtered_name (None, g0))"
    by (auto simp: findall_def)
  from finditer_D [of filtered_name
      "\<lambda>h0 h1. h0 = h1 @ ''|'' \<and> h1 \<noteq> [] \<and> list_all is_word h1", OF _ this]
    filtered_name_D
  have "sublist h0 g0" and "h0 = v @ ''|''" and "list_all is_word v" by blast+
  with sub g0 show ?thesis by (auto simp: normalise_word)
qed


lemma extract_keys_invariant:
  "distinct (extract_keys cls template) \<and>
   (\<forall>n \<in> set (extract_keys cls template).
      n \<notin> set (additional_context cls) \<and>
      (sublist (''{'' @ n @ ''}'') template
       \<or> (\<exists>ws rest. list_all is_space ws \<and> sublist (''{{'' @ ws @ n @ rest @ ''}}'') template)
       \<or> (\<exists>mid. sublist (''{%'' @ mid @ ''%}'') template
                 \<and> sublist (n @ ''|'') (''{%'' @ mid @ ''%}''))))"
proof -
  let ?Q = "\<lambda>n. sublist (''{'' @ n @ ''}'') template
       \<or> (\<exists>ws rest. list_all is_space ws \<and> sublist (''{{'' @ ws @ n @ rest @ ''}}'') template)
       \<or> (\<exists>mid. sublist (''{%'' @ mid @ ''%}'') template
                 \<and> sublist (n @ ''|'') (''{%'' @ mid @ ''%}''))"
  let ?P = "\<lambda>st. distinct (fst st) \<and> snd st = set (fst st)
           \<and> (\<forall>n \<in> set (fst st). n \<notin> set (additional_context cls) \<and> ?Q n)"
  let ?st1 = "fold (\<lambda>match. add_var cls (snd match))
                  (finditer jinja_expression (None, template)) ([], {})"
  let ?st2 = "fold (\<lambda>match. add_var cls (snd match))
                  (finditer format_field (None, template)) ?st1"
  let ?inner = "\<lambda>structure. fold (\<lambda>var st.
                          if \<not> startswith var ''end''
                             \<and> var \<notin> {''if'', ''else'', ''elif'', ''for'', ''in''}
                          then add_var cls var st else st)
                     (findall filtered_name (fst structure))"
  let ?st3 = "fold ?inner (finditer control_structure (None, template)) ?st2"
  have P0: "?P ([], {})" by simp
  have P1: "?P ?st1"
  proof (rule fold_invariant [where P = ?P, OF _ P0])
    fix x st assume x: "x \<in> set (finditer jinja_expression (None, template))" and st: "?P st"
    from x jinja_match_occurs [of "fst x" "snd x" template]
    have "?Q (strip (split_first CHR ''.'' (split_first CHR ''|'' (snd x))))" by simp
    from add_var_invariant [where Q = ?Q, OF st this]
    show "?P (add_var cls (snd x) st)" .
  qed
  have P2: "?P ?st2"
  proof (rule fold_invariant [where P = ?P, OF _ P1])
    fix x st assume x: "x \<in> set (finditer format_field (None, template))" and st: "?P st"
    from x format_match_occurs [of "fst x" "snd x" template]
    have "?Q (strip (split_first CHR ''.'' (split_first CHR ''|'' (snd x))))" by simp
    from add_var_invariant [where Q = ?Q, OF st this]
    show "?P (add_var cls (snd x) st)" .
  qed
  have P3: "?P ?st3"
  proof (rule fold_invariant [where P = ?P, OF _ P2])
    fix x st assume x: "x \<in> set (finditer control_structure (None, template))" and st: "?P st"
    show "?P (?inner x st)"
    proof (rule fold_invariant [where P = ?P, OF _ st])
      fix v st' assume v: "v \<in> set (findall filtered_name (fst x))" and st': "?P st'"
      from x v control_match_occurs [of "fst x" "snd x" template v]
      have n: "strip (split_first CHR ''.'' (split_first CHR ''|'' v)) = v"
        and "?Q v" by auto
      then have "?Q (strip (split_first CHR ''.'' (split_first CHR ''|'' v)))" by simp
      from add_var_invariant [where Q = ?Q, OF st' this]
      have "?P (add_var cls v st')" .
      from this st' show "?P (if \<not> startswith v ''end''
                             \<and> v \<notin> {''if'', ''else'', ''elif'', ''for'', ''in''}
                          then add_var cls v st' else st')"
        by (rule if_preserves [where P = ?P])
    qed
  qed
  have e: "extract_keys cls template = fst ?st3"
    by (simp only: extract_keys_def Let_def)
  from P3 show ?thesis unfolding e by blast
qed

lemma extract_keys_distinct: "distinct (extract_keys cls template)"
  using extract_keys_invariant [of cls template] by blast

text \<open>
  C1 (as the code has it). For every template, \<open>extract_keys\<close> returns a list without
  duplicates, none of whose names is a key of \<^verbatim>\<open>additional_context\<close>, and every returned
  name \<open>n\<close> occurs in the template in one of three syntaxes: as the format field
  \<^verbatim>\<open>{n}\<close>; at the head of a Jinja2 expression, \<^verbatim>\<open>{{\<close>, optional white space, \<open>n\<close>, and
  further on the closing \<^verbatim>\<open>}}\<close>; or directly before a filter bar \<^verbatim>\<open>|\<close> inside a Jinja2
  control structure \<^verbatim>\<open>{% ... %}\<close>.
\<close>

theorem extract_keys_sound:
  "distinct (extract_keys cls template) \<and>
   (\<forall>n \<in> set (extract_keys cls template).
      n \<notin> set (additional_context cls) \<and>
      (sublist (''{'' @ n @ ''}'') template
       \<or> (\<exists>ws rest. list_all is_space ws \<and> sublist (''{{'' @ ws @ n @ rest @ ''}}'') template)
       \<or> (\<exists>mid. sublist (''{%'' @ mid @ ''%}'') template
                 \<and> sublist (n @ ''|'') (''{%'' @ mid @ ''%}''))))"
  by (rule extract_keys_invariant)

theorem extract_keys_sound_witness:
  "extract_keys FormatString ''Hi {name} {{ datetime.now() }} {% if user|upper %}'' = [''name'', ''user'']
   \<and> distinct (extract_keys FormatString ''Hi {name} {{ datetime.now() }} {% if user|upper %}'')
   \<and> ''name'' \<notin> set (additional_context FormatString)
   \<and> ''user'' \<notin> set (additional_context FormatString)"
proof -
  have e: "extract_keys FormatString ''Hi {name} {{ datetime.now() }} {% if user|upper %}''
             = [''name'', ''user'']"
    by code_simp
  from extract_keys_sound [of FormatString "''Hi {name} {{ datetime.now() }} {% if user|upper %}''"]
  show ?thesis unfolding e by simp
qed

text \<open>
  C1 as stated names two syntaxes only. The template below holds neither a format field
  \<^verbatim>\<open>{user}\<close> nor any \<^verbatim>\<open>{{\<close>, and \<^verbatim>\<open>user\<close> is returned: it is taken from the control
  structure by the third loop.
\<close>

theorem extract_keys_third_syntax_counterexample:
  "extract_keys FormatString ''{% if user|length %}'' = [''user'']
   \<and> \<not> sublist ''{user}'' ''{% if user|length %}''
   \<and> \<not> sublist ''{{'' ''{% if user|length %}''"
  by code_simp

section \<open>Properties of FormatString\<close>

lemma dict_set_new: "k \<notin> fst ` set d \<Longrightarrow> dict_set k v d = d @ [(k, v)]"
  by (induction d) auto

lemma dict_update_distinct:
  "distinct (map fst items) \<Longrightarrow> fst ` set items \<inter> fst ` set d = {}
     \<Longrightarrow> dict_update d items = d @ items"
proof (induction items arbitrary: d)
  case Nil
  then show ?case by (simp add: dict_update_def)
next
  case (Cons e items)
  from Cons.prems have new: "fst e \<notin> fst ` set d" by auto
  from Cons.prems have "distinct (map fst items)"
    and "fst ` set items \<inter> fst ` set (d @ [e]) = {}" by auto
  from Cons.IH [OF this] have "dict_update (d @ [e]) items = (d @ [e]) @ items" .
  with new show ?case by (simp add: dict_update_def dict_set_new)
qed

lemma dict_of_distinct: "distinct (map fst items) \<Longrightarrow> dict_of items = items"
  using dict_update_distinct [of items "[]"] by (simp add: dict_of_def)

lemma save_data_inputs:
  "save_data template_type template (extract_keys cls template) kwargs =
     PDict [(''template_type'', Val (PStr template_type)),
            (''template'', Val (PStr template)),
            (''inputs'', PDict (map (\<lambda>k. (k, Val (dict_get kwargs k (PStr ''''))))
                                  (extract_keys cls template)))]"
proof -
  have "map fst (map (\<lambda>k. (k, Val (dict_get kwargs k (PStr '''')))) (extract_keys cls template))
          = extract_keys cls template"
    by (simp add: comp_def)
  then have "distinct (map fst (map (\<lambda>k. (k, Val (dict_get kwargs k (PStr ''''))))
                                  (extract_keys cls template)))"
    by (simp only: extract_keys_distinct)
  from dict_of_distinct [OF this] show ?thesis by (simp only: save_data_def)
qed

lemma format_string_no_save:
  assumes "render_template H cls template_type template kwargs = Inr s"
  shows "format_string H cls w template_type template '''' kwargs =
     (Inr (map (\<lambda>key. py_str (dict_get kwargs key (PStr ''''))) (extract_keys cls template)
           @ [s, '''']), w)"
  using assms by (simp add: format_string_def Let_def)

lemma format_string_saved:
  assumes "render_template H cls template_type template kwargs = Inr s"
    and "save_path \<noteq> ''''"
    and "write_state H w (os_path_join H (get_output_directory H) save_path)
           (save_data template_type template (extract_keys cls template) kwargs) = (None, w')"
    and "rich_print (terminal H)
           (''Node state saved to: '' @ os_path_join H (get_output_directory H) save_path) = None"
  shows "format_string H cls w template_type template save_path kwargs =
     (Inr (map (\<lambda>key. py_str (dict_get kwargs key (PStr ''''))) (extract_keys cls template)
           @ [s, os_path_join H (get_output_directory H) save_path]), w')"
  using assms by (simp add: format_string_def Let_def)

lemma format_string_write_failed:
  assumes "render_template H cls template_type template kwargs = Inr s"
    and "save_path \<noteq> ''''"
    and "write_state H w (os_path_join H (get_output_directory H) save_path)
           (save_data template_type template (extract_keys cls template) kwargs) = (Some e, w')"
  shows "format_string H cls w template_type template save_path kwargs =
     (case rich_print (terminal H) (''Error saving node state: '' @ exc_str e) of
        Some e' \<Rightarrow> (Inl e', w')
      | None \<Rightarrow>
          (Inr (map (\<lambda>key. py_str (dict_get kwargs key (PStr ''''))) (extract_keys cls template)
                @ [s, '''']), w'))"
  using assms by (simp add: format_string_def Let_def)

lemma format_string_report_failed:
  assumes "render_template H cls template_type template kwargs = Inr s"
    and "save_path \<noteq> ''''"
    and "write_state H w (os_path_join H (get_output_directory H) save_path)
           (save_data template_type template (extract_keys cls template) kwargs) = (None, w')"
    and "rich_print (terminal H)
           (''Node state saved to: '' @ os_path_join H (get_output_directory H) save_path) = Some e"
  shows "format_string H cls w template_type template save_path kwargs =
     (case rich_print (terminal H) (''Error saving node state: '' @ exc_str e) of
        Some e' \<Rightarrow> (Inl e', w')
      | None \<Rightarrow>
          (Inr (map (\<lambda>key. py_str (dict_get kwargs key (PStr ''''))) (extract_keys cls template)
                @ [s, '''']), w'))"
  using assms by (simp add: format_string_def Let_def)

lemma format_string_file_system:
  assumes "render_template H cls template_type template kwargs = Inr s"
    and "save_path \<noteq> ''''"
  shows "snd (format_string H cls w template_type template save_path kwargs) =
     snd (write_state H w (os_path_join H (get_output_directory H) save_path)
            (save_data template_type template (extract_keys cls template) kwargs))"
  using assms
  by (simp add: format_string_def Let_def split: prod.splits option.splits)

lemma write_state_fails_iff:
  "fst (write_state H w path data) = Some e \<longleftrightarrow>
     fst (os_makedirs H w (os_path_dirname H path)) = Some e
     \<or> fst (os_makedirs H w (os_path_dirname H path)) = None
        \<and> fst (open_write H (snd (os_makedirs H w (os_path_dirname H path))) path) = Some e
     \<or> fst (os_makedirs H w (os_path_dirname H path)) = None
        \<and> fst (open_write H (snd (os_makedirs H w (os_path_dirname H path))) path) = None
        \<and> fst (json_dump H (snd (open_write H (snd (os_makedirs H w (os_path_dirname H path))) path))
                  path data) = Some e"
  by (auto simp: write_state_def split: prod.splits option.splits)

lemma write_state_succeeds:
  assumes "fst (write_state H w path data) = None"
  shows "write_state H w path data =
           json_dump H (snd (open_write H (snd (os_makedirs H w (os_path_dirname H path))) path))
             path data"
  using assms by (auto simp: write_state_def split: prod.splits option.splits)

text \<open>
  C2 (as the code has it). When \<^verbatim>\<open>template_type\<close> is \<^verbatim>\<open>"Simple"\<close>, \<^verbatim>\<open>str.format\<close> succeeds
  and \<^verbatim>\<open>print\<close> accepts the message about the save that it is given, \<open>format_string\<close>
  returns a tuple of \<open>len(_extract_keys(template)) + 2\<close> elements: the string value of
  each extracted variable taken from the keyword arguments in extraction order (the empty
  string when the variable is missing), then the formatted template, then the path of the
  saved file: empty when no save path was given, the save path joined to the host's
  output directory when the node state was written, and empty again when writing it
  failed.
\<close>

theorem format_string_simple_result:
  assumes fmt: "str_format H template kwargs = Inr s"
    and saved: "save_path \<noteq> '''' \<Longrightarrow>
        fst (write_state H w (os_path_join H (get_output_directory H) save_path)
               (save_data ''Simple'' template (extract_keys cls template) kwargs)) = None \<Longrightarrow>
        rich_print (terminal H)
          (''Node state saved to: '' @ os_path_join H (get_output_directory H) save_path) = None"
    and failed: "\<And>e. save_path \<noteq> '''' \<Longrightarrow>
        fst (write_state H w (os_path_join H (get_output_directory H) save_path)
               (save_data ''Simple'' template (extract_keys cls template) kwargs)) = Some e \<Longrightarrow>
        rich_print (terminal H) (''Error saving node state: '' @ exc_str e) = None"
  shows "let keys = extract_keys cls template;
             values = map (\<lambda>key. py_str (dict_get kwargs key (PStr ''''))) keys;
             path = os_path_join H (get_output_directory H) save_path;
             saved_file_path =
               (if save_path = '''' then ''''
                else if fst (write_state H w path (save_data ''Simple'' template keys kwargs)) = None
                     then path
                     else '''')
         in fst (format_string H cls w ''Simple'' template save_path kwargs)
              = Inr (values @ [s, saved_file_path])
            \<and> length (values @ [s, saved_file_path]) = length keys + 2
            \<and> (\<forall>key \<in> set keys.
                  map_of kwargs key = None \<longrightarrow> py_str (dict_get kwargs key (PStr '''')) = '''')"
proof -
  let ?path = "os_path_join H (get_output_directory H) save_path"
  let ?data = "save_data ''Simple'' template (extract_keys cls template) kwargs"
  let ?vs = "map (\<lambda>key. py_str (dict_get kwargs key (PStr ''''))) (extract_keys cls template)"
  from fmt have r: "render_template H cls ''Simple'' template kwargs = Inr s"
    by (simp add: render_template_def)
  have "fst (format_string H cls w ''Simple'' template save_path kwargs) =
      Inr (?vs @ [s, if save_path = '''' then ''''
                         else if fst (write_state H w ?path ?data) = None then ?path else ''''])"
  proof (cases "save_path = ''''")
    case True
    with format_string_no_save [OF r, of w] show ?thesis by simp
  next
    case False
    obtain written w' where ws: "write_state H w ?path ?data = (written, w')"
      by (cases "write_state H w ?path ?data") auto
    show ?thesis
    proof (cases written)
      case None
      with ws saved [OF False] have "rich_print (terminal H) (''Node state saved to: '' @ ?path) = None"
        by simp
      from format_string_saved [OF r False ws [unfolded None] this] ws None False
      show ?thesis by simp
    next
      case (Some e)
      with ws failed [OF False, of e]
      have "rich_print (terminal H) (''Error saving node state: '' @ exc_str e) = None"
        by simp
      with format_string_write_failed [OF r False ws [unfolded Some]] ws Some False
      show ?thesis by simp
    qed
  qed
  then show ?thesis by (simp add: dict_get_def Let_def)
qed

theorem format_string_simple_result_witness:
  "fst (format_string (memory_host []) FormatString [] ''Simple''
          ''Hello {name}, you are {age} years old'' ''state.json''
          [(''name'', PStr ''Alice''), (''age'', PStr ''30'')])
     = Inr [''Alice'', ''30'', ''Hello Alice, you are 30 years old'', ''/output/state.json'']
   \<and> fst (format_string (memory_host [''/output/state.json'']) FormatString [] ''Simple''
          ''Hello {name}, you are {age} years old'' ''state.json''
          [(''name'', PStr ''Alice''), (''age'', PStr ''30'')])
     = Inr [''Alice'', ''30'', ''Hello Alice, you are 30 years old'', '''']"
proof -
  let ?t = "''Hello {name}, you are {age} years old''"
  let ?kw = "[(''name'', PStr ''Alice''), (''age'', PStr ''30'')]"
  have k: "extract_keys FormatString ?t = [''name'', ''age'']"
    by code_simp
  have f1: "str_format (memory_host []) ?t ?kw = Inr ''Hello Alice, you are 30 years old''"
    by code_simp
  have s1: "rich_print (terminal (memory_host []))
              (''Node state saved to: ''
                 @ os_path_join (memory_host []) (get_output_directory (memory_host [])) ''state.json'')
            = None"
    by code_simp
  have w1: "fst (write_state (memory_host []) []
                   (os_path_join (memory_host []) (get_output_directory (memory_host [])) ''state.json'')
                   (save_data ''Simple'' ?t (extract_keys FormatString ?t) ?kw)) = None"
    by code_simp
  have j1: "os_path_join (memory_host []) (get_output_directory (memory_host [])) ''state.json''
              = ''/output/state.json''"
    by code_simp
  from format_string_simple_result
         [OF f1, where cls = FormatString and w = "[]" and save_path = "''state.json''"] s1 w1
  have 1: "fst (format_string (memory_host []) FormatString [] ''Simple'' ?t ''state.json'' ?kw)
     = Inr [''Alice'', ''30'', ''Hello Alice, you are 30 years old'', ''/output/state.json'']"
    unfolding k j1 Let_def by (simp add: dict_get_def)
  let ?H = "memory_host [''/output/state.json'']"
  have f2: "str_format ?H ?t ?kw = Inr ''Hello Alice, you are 30 years old''"
    by code_simp
  have w2: "fst (write_state ?H []
                   (os_path_join ?H (get_output_directory ?H) ''state.json'')
                   (save_data ''Simple'' ?t (extract_keys FormatString ?t) ?kw))
            = Some (OSError (os_message ''[Errno 13] Permission denied'' ''/output/state.json''))"
    by code_simp
  have e2: "rich_print (terminal ?H)
              (''Error saving node state: ''
                 @ exc_str (OSError (os_message ''[Errno 13] Permission denied'' ''/output/state.json'')))
            = None"
    by code_simp
  from format_string_simple_result
         [OF f2, where cls = FormatString and w = "[]" and save_path = "''state.json''"] w2 e2
  have 2: "fst (format_string ?H FormatString [] ''Simple'' ?t ''state.json'' ?kw)
     = Inr [''Alice'', ''30'', ''Hello Alice, you are 30 years old'', '''']"
    unfolding k Let_def by (simp add: dict_get_def)
  from 1 2 show ?thesis by blast
qed

text \<open>
  C2 as stated ends the tuple with the save path. With the save path \<^verbatim>\<open>state.json\<close> the
  last element is the empty string when the file cannot be written, and
  \<^verbatim>\<open>/output/state.json\<close> when it can; in both runs \<^verbatim>\<open>str.format\<close> succeeds.
\<close>

theorem format_string_last_element_counterexample:
  "fst (format_string (memory_host [''/output/state.json'']) FormatString [] ''Simple''
          ''Hello {name}'' ''state.json'' [(''name'', PStr ''Alice'')])
     = Inr [''Alice'', ''Hello Alice'', '''']
   \<and> fst (format_string (memory_host []) FormatString [] ''Simple''
          ''Hello {name}'' ''state.json'' [(''name'', PStr ''Alice'')])
     = Inr [''Alice'', ''Hello Alice'', ''/output/state.json'']"
  by code_simp

text \<open>
  C5. The claim has \<open>format_string\<close> return its full tuple, ending with the empty string,
  whenever writing the node state fails. The handler of the \<^verbatim>\<open>try\<close> first prints the text
  of the exception with \<^verbatim>\<open>rich\<close>'s \<^verbatim>\<open>print\<close>: when the formatting has succeeded, a save path
  is given and writing fails (\<^verbatim>\<open>os.makedirs\<close>, \<^verbatim>\<open>open\<close> or \<^verbatim>\<open>json.dump\<close> raises, see
  \<open>write_state_fails_iff\<close>), \<open>format_string\<close> returns that tuple if \<^verbatim>\<open>print\<close> accepts the
  text, and raises the exception of \<^verbatim>\<open>print\<close> if it does not.
\<close>

theorem format_string_write_failure:
  assumes "save_path \<noteq> ''''"
    and "render_template H cls template_type template kwargs = Inr s"
    and "fst (write_state H w (os_path_join H (get_output_directory H) save_path)
                (save_data template_type template (extract_keys cls template) kwargs)) = Some e"
  shows "(rich_print (terminal H) (''Error saving node state: '' @ exc_str e) = None \<longrightarrow>
            fst (format_string H cls w template_type template save_path kwargs) =
              Inr (map (\<lambda>key. py_str (dict_get kwargs key (PStr ''''))) (extract_keys cls template)
                   @ [s, '''']))
       \<and> (\<forall>e'. rich_print (terminal H) (''Error saving node state: '' @ exc_str e) = Some e' \<longrightarrow>
            fst (format_string H cls w template_type template save_path kwargs) = Inl e')"
proof -
  from assms(3) obtain w'
    where "write_state H w (os_path_join H (get_output_directory H) save_path)
             (save_data template_type template (extract_keys cls template) kwargs) = (Some e, w')"
    by (cases "write_state H w (os_path_join H (get_output_directory H) save_path)
                 (save_data template_type template (extract_keys cls template) kwargs)") auto
  from format_string_write_failed [OF assms(2) assms(1) this]
  show ?thesis by (auto split: option.splits)
qed

theorem format_string_write_failure_witness:
  "fst (format_string (memory_host [''/output/[/]'']) FormatString [] ''Simple'' ''t'' ''[/]'' [])
     = Inl (MarkupError (''closing tag '' @ [CHR 0x27] @ ''[/]'' @ [CHR 0x27]
                           @ '' at position 64 has nothing to close''))
   \<and> fst (format_string (memory_host [''/output/state.json'']) FormatString [] ''Simple''
          ''Hello {name}'' ''state.json'' [(''name'', PStr ''Alice'')])
     = Inr [''Alice'', ''Hello Alice'', '''']"
proof -
  let ?H = "memory_host [''/output/[/]'']"
  have p: "''[/]'' \<noteq> ''''" by simp
  have r: "render_template ?H FormatString ''Simple'' ''t'' [] = Inr ''t''"
    by code_simp
  have f: "fst (write_state ?H [] (os_path_join ?H (get_output_directory ?H) ''[/]'')
                  (save_data ''Simple'' ''t'' (extract_keys FormatString ''t'') []))
           = Some (OSError (os_message ''[Errno 13] Permission denied'' ''/output/[/]''))"
    by code_simp
  have m: "rich_print (terminal ?H)
             (''Error saving node state: ''
                @ exc_str (OSError (os_message ''[Errno 13] Permission denied'' ''/output/[/]'')))
           = Some (MarkupError (''closing tag '' @ [CHR 0x27] @ ''[/]'' @ [CHR 0x27]
                                  @ '' at position 64 has nothing to close''))"
    by code_simp
  from format_string_write_failure [OF p r f] m
  have 1: "fst (format_string ?H FormatString [] ''Simple'' ''t'' ''[/]'' [])
     = Inl (MarkupError (''closing tag '' @ [CHR 0x27] @ ''[/]'' @ [CHR 0x27]
                           @ '' at position 64 has nothing to close''))"
    by blast
  let ?G = "memory_host [''/output/state.json'']"
  have p': "''state.json'' \<noteq> ''''" by simp
  have r': "render_template ?G FormatString ''Simple'' ''Hello {name}'' [(''name'', PStr ''Alice'')]
              = Inr ''Hello Alice''"
    by code_simp
  have f': "fst (write_state ?G [] (os_path_join ?G (get_output_directory ?G) ''state.json'')
                  (save_data ''Simple'' ''Hello {name}''
                     (extract_keys FormatString ''Hello {name}'') [(''name'', PStr ''Alice'')]))
           = Some (OSError (os_message ''[Errno 13] Permission denied'' ''/output/state.json''))"
    by code_simp
  have m': "rich_print (terminal ?G)
             (''Error saving node state: ''
                @ exc_str (OSError (os_message ''[Errno 13] Permission denied'' ''/output/state.json'')))
           = None"
    by code_simp
  have k: "extract_keys FormatString ''Hello {name}'' = [''name'']"
    by code_simp
  from format_string_write_failure [OF p' r' f'] m'
  have 2: "fst (format_string ?G FormatString [] ''Simple'' ''Hello {name}'' ''state.json''
                  [(''name'', PStr ''Alice'')])
     = Inr [''Alice'', ''Hello Alice'', '''']"
    unfolding k by (simp add: dict_get_def)
  from 1 2 show ?thesis by blast
qed

text \<open>
  C7. When the formatting has succeeded, a save path is given and the write succeeds,
  \<open>format_string\<close> leaves the file system as \<^verbatim>\<open>json.dump\<close> leaves it after writing, to the
  save path under the output directory, the record with exactly the keys
  \<^verbatim>\<open>template_type\<close>, \<^verbatim>\<open>template\<close> and \<^verbatim>\<open>inputs\<close>, where \<^verbatim>\<open>inputs\<close> maps each variable
  extracted from the template to its keyword argument, or to the empty string when the
  keyword arguments do not have it. It returns the tuple that ends with that path when
  \<^verbatim>\<open>print\<close> accepts the message about the save.
\<close>

theorem format_string_writes_state:
  assumes "save_path \<noteq> ''''"
    and "render_template H cls template_type template kwargs = Inr s"
    and "fst (write_state H w (os_path_join H (get_output_directory H) save_path)
                (save_data template_type template (extract_keys cls template) kwargs)) = None"
  shows "let keys = extract_keys cls template;
             path = os_path_join H (get_output_directory H) save_path;
             w1 = snd (os_makedirs H w (os_path_dirname H path));
             w2 = snd (open_write H w1 path);
             inputs = map (\<lambda>k. (k, Val (dict_get kwargs k (PStr '''')))) keys;
             record = PDict [(''template_type'', Val (PStr template_type)),
                             (''template'', Val (PStr template)),
                             (''inputs'', PDict inputs)]
         in snd (format_string H cls w template_type template save_path kwargs)
              = snd (json_dump H w2 path record)
            \<and> fst (json_dump H w2 path record) = None
            \<and> (\<forall>k \<in> set keys.
                  map_of inputs k
                    = Some (Val (case map_of kwargs k of None \<Rightarrow> PStr '''' | Some v \<Rightarrow> v)))
            \<and> (rich_print (terminal H) (''Node state saved to: '' @ path) = None \<longrightarrow>
                  fst (format_string H cls w template_type template save_path kwargs)
                    = Inr (map (\<lambda>key. py_str (dict_get kwargs key (PStr ''''))) keys @ [s, path]))"
proof -
  let ?path = "os_path_join H (get_output_directory H) save_path"
  let ?data = "save_data template_type template (extract_keys cls template) kwargs"
  let ?w2 = "snd (open_write H (snd (os_makedirs H w (os_path_dirname H ?path))) ?path)"
  let ?saved = "PDict [(''template_type'', Val (PStr template_type)),
                        (''template'', Val (PStr template)),
                        (''inputs'', PDict (map (\<lambda>k. (k, Val (dict_get kwargs k (PStr ''''))))
                                              (extract_keys cls template)))]"
  have d: "?data = ?saved" by (rule save_data_inputs)
  have 2: "write_state H w ?path ?data = json_dump H ?w2 ?path ?data"
    by (rule write_state_succeeds [OF assms(3)])
  have "snd (format_string H cls w template_type template save_path kwargs)
          = snd (write_state H w ?path ?data)"
    by (rule format_string_file_system [OF assms(2) assms(1)])
  then have "snd (format_string H cls w template_type template save_path kwargs)
          = snd (json_dump H ?w2 ?path ?data)"
    by (simp only: 2)
  then have 3: "snd (format_string H cls w template_type template save_path kwargs)
          = snd (json_dump H ?w2 ?path ?saved)"
    by (simp only: d)
  from assms(3) have "fst (json_dump H ?w2 ?path ?data) = None"
    by (simp only: 2)
  then have 4: "fst (json_dump H ?w2 ?path ?saved) = None"
    by (simp only: d)
  have 5: "map_of (map (\<lambda>k. (k, Val (dict_get kwargs k (PStr '''')))) (extract_keys cls template)) k
            = Some (Val (case map_of kwargs k of None \<Rightarrow> PStr '''' | Some v \<Rightarrow> v))"
    if "k \<in> set (extract_keys cls template)" for k
    using that by (simp add: map_of_map_restrict dict_get_def)
  have 6: "fst (format_string H cls w template_type template save_path kwargs)
             = Inr (map (\<lambda>key. py_str (dict_get kwargs key (PStr ''''))) (extract_keys cls template)
                    @ [s, ?path])"
    if "rich_print (terminal H) (''Node state saved to: '' @ ?path) = None"
  proof -
    from assms(3) obtain w' where "write_state H w ?path ?data = (None, w')"
      by (cases "write_state H w ?path ?data") simp
    from format_string_saved [OF assms(2) assms(1) this that] show ?thesis by simp
  qed
  from 3 4 5 6 show ?thesis unfolding Let_def by blast
qed

theorem format_string_writes_state_witness:
  "format_string (memory_host []) FormatString [] ''Simple''
          ''Hello {name} {{friend}}'' ''state.json'' [(''name'', PStr ''Alice'')]
     = (Inr ['''', ''Alice'', ''Hello Alice {friend}'', ''/output/state.json''],
        [(''/output/state.json'',
          Json (PDict [(''template_type'', Val (PStr ''Simple'')),
                       (''template'', Val (PStr ''Hello {name} {{friend}}'')),
                       (''inputs'', PDict [(''friend'', Val (PStr '''')),
                                           (''name'', Val (PStr ''Alice''))])]))])"
proof -
  have p: "''state.json'' \<noteq> ''''" by simp
  have r: "render_template (memory_host []) FormatString ''Simple''
             ''Hello {name} {{friend}}'' [(''name'', PStr ''Alice'')] = Inr ''Hello Alice {friend}''"
    by code_simp
  have f: "fst (write_state (memory_host []) []
                  (os_path_join (memory_host []) (get_output_directory (memory_host [])) ''state.json'')
                  (save_data ''Simple'' ''Hello {name} {{friend}}''
                     (extract_keys FormatString ''Hello {name} {{friend}}'')
                     [(''name'', PStr ''Alice'')]))
           = None"
    by code_simp
  have k: "extract_keys FormatString ''Hello {name} {{friend}}'' = [''friend'', ''name'']"
    by code_simp
  have j: "os_path_join (memory_host []) (get_output_directory (memory_host [])) ''state.json''
             = ''/output/state.json''"
    by code_simp
  have m: "rich_print (terminal (memory_host [])) (''Node state saved to: '' @ ''/output/state.json'')
             = None"
    by code_simp
  from format_string_writes_state [OF p r f] m
  have "snd (format_string (memory_host []) FormatString [] ''Simple''
          ''Hello {name} {{friend}}'' ''state.json'' [(''name'', PStr ''Alice'')])
     = [(''/output/state.json'',
          Json (PDict [(''template_type'', Val (PStr ''Simple'')),
                       (''template'', Val (PStr ''Hello {name} {{friend}}'')),
                       (''inputs'', PDict [(''friend'', Val (PStr '''')),
                                           (''name'', Val (PStr ''Alice''))])]))]
   \<and> fst (format_string (memory_host []) FormatString [] ''Simple''
          ''Hello {name} {{friend}}'' ''state.json'' [(''name'', PStr ''Alice'')])
     = Inr ['''', ''Alice'', ''Hello Alice {friend}'', ''/output/state.json'']"
    unfolding k j Let_def by (simp add: dict_get_def memory_host_def)
  then show ?thesis by (simp add: prod_eq_iff)
qed

text \<open>
  C4 (as the code has it). \<open>update_widget\<close> assigns three class attributes:
  \<^verbatim>\<open>node_configs\<close>, at the given node identifier only, \<^verbatim>\<open>RETURN_TYPES\<close> and
  \<^verbatim>\<open>RETURN_NAMES\<close>. The other class attributes are left as they were. No other operation
  of the class returns a changed class.
\<close>

theorem update_widget_assigns:
  "CATEGORY (snd (update_widget cls node_id template_type template)) = CATEGORY cls
   \<and> FUNCTION (snd (update_widget cls node_id template_type template)) = FUNCTION cls
   \<and> additional_context (snd (update_widget cls node_id template_type template))
       = additional_context cls
   \<and> (\<forall>other. other \<noteq> node_id \<longrightarrow>
         node_configs (snd (update_widget cls node_id template_type template)) other
           = node_configs cls other)
   \<and> node_configs (snd (update_widget cls node_id template_type template)) node_id
       = Some (fst (update_widget cls node_id template_type template))
   \<and> RETURN_TYPES (snd (update_widget cls node_id template_type template))
       = replicate (length (extract_keys cls template)) ''STRING'' @ [''STRING'', ''STRING'']
   \<and> RETURN_NAMES (snd (update_widget cls node_id template_type template))
       = extract_keys cls template @ [''formatted_string'', ''saved_file_path'']"
  by (simp add: update_widget_def Let_def)

theorem update_widget_assigns_witness:
  "node_configs (snd (update_widget FormatString ''n1'' ''Simple'' ''Hello {name}'')) ''n2'' = None
   \<and> CATEGORY (snd (update_widget FormatString ''n1'' ''Simple'' ''Hello {name}''))
        = ''dv/string_operations''
   \<and> RETURN_NAMES (snd (update_widget FormatString ''n1'' ''Simple'' ''Hello {name}''))
        = [''name'', ''formatted_string'', ''saved_file_path'']
   \<and> RETURN_TYPES (snd (update_widget FormatString ''n1'' ''Simple'' ''Hello {name}''))
        = [''STRING'', ''STRING'', ''STRING'']"
proof -
  have k: "extract_keys FormatString ''Hello {name}'' = [''name'']"
    by code_simp
  have n: "''n2'' \<noteq> ''n1''" by simp
  from update_widget_assigns [of FormatString "''n1''" "''Simple''" "''Hello {name}''"] n
  show ?thesis unfolding k by (simp add: FormatString_def)
qed

text \<open>
  C4 as stated has \<^verbatim>\<open>node_configs\<close> as the only class attribute that is modified. One
  call of \<open>update_widget\<close> on the class as defined changes \<^verbatim>\<open>RETURN_NAMES\<close> and
  \<^verbatim>\<open>RETURN_TYPES\<close>.
\<close>

theorem update_widget_return_names_counterexample:
  "RETURN_NAMES FormatString = [''formatted_string'', ''saved_file_path'']
   \<and> RETURN_NAMES (snd (update_widget FormatString ''n1'' ''Simple'' ''Hello {name}''))
        = [''name'', ''formatted_string'', ''saved_file_path'']
   \<and> RETURN_TYPES FormatString = [''STRING'', ''STRING'']
   \<and> RETURN_TYPES (snd (update_widget FormatString ''n1'' ''Simple'' ''Hello {name}''))
        = [''STRING'', ''STRING'', ''STRING'']"
proof -
  have k: "extract_keys FormatString ''Hello {name}'' = [''name'']"
    by code_simp
  show ?thesis by (simp add: update_widget_def Let_def k) (simp add: FormatString_def)
qed

lemma update_widgets_other:
  "node_id \<notin> fst ` set calls \<Longrightarrow>
     node_configs (update_widgets cls calls) node_id = node_configs cls node_id"
proof (induction calls arbitrary: cls)
  case Nil
  then show ?case by simp
next
  case (Cons call calls)
  then have "node_id \<noteq> fst call" and "node_id \<notin> fst ` set calls" by auto
  with Cons.IH [of "snd (update_widget cls (fst call) (fst (snd call)) (snd (snd call)))"]
  show ?case by (simp add: update_widget_def Let_def)
qed

text \<open>
  C8. After \<open>update_widget(node_id, template_type, template)\<close>,
  \<open>get_node_config(node_id)\<close> returns exactly the configuration that \<open>update_widget\<close>
  returned; for a node identifier that no call of \<open>update_widget\<close> has stored since the
  class was defined, \<open>get_node_config\<close> returns the empty dictionary.
\<close>

theorem node_config_round_trip:
  "get_node_config (snd (update_widget cls node_id template_type template)) node_id
     = fst (update_widget cls node_id template_type template)
   \<and> (node_id \<notin> fst ` set calls \<longrightarrow>
        get_node_config (update_widgets FormatString calls) node_id = PDict [])"
proof
  show "get_node_config (snd (update_widget cls node_id template_type template)) node_id
     = fst (update_widget cls node_id template_type template)"
    by (simp add: get_node_config_def update_widget_def Let_def)
next
  show "node_id \<notin> fst ` set calls \<longrightarrow>
        get_node_config (update_widgets FormatString calls) node_id = PDict []"
  proof
    assume "node_id \<notin> fst ` set calls"
    from update_widgets_other [OF this, of FormatString]
    show "get_node_config (update_widgets FormatString calls) node_id = PDict []"
      by (simp add: get_node_config_def FormatString_def)
  qed
qed

theorem node_config_round_trip_witness:
  "get_node_config (snd (update_widget FormatString ''test_node_2'' ''Simple'' ''Hello {name}''))
       ''test_node_2''
     = PDict [(''inputs'', PDict [(''template_type'', PTuple [PList [Val (PStr ''Simple''), Val (PStr ''Jinja2'')]]),
                                  (''template'', PTuple [Val (PStr ''STRING''), PDict [(''multiline'', Val (PBool True))]]),
                                  (''save_path'', string_input),
                                  (''name'', string_input)]),
              (''outputs'', PList [output_socket ''name'', output_socket ''formatted_string'',
                                   output_socket ''saved_file_path''])]
   \<and> ''non_existent_node'' \<notin> fst ` set [(''test_node_2'', ''Simple'', ''Hello {name}'')]
   \<and> get_node_config (update_widgets FormatString [(''test_node_2'', ''Simple'', ''Hello {name}'')])
        ''non_existent_node'' = PDict []"
proof -
  have k: "extract_keys FormatString ''Hello {name}'' = [''name'']"
    by code_simp
  have c: "fst (update_widget FormatString ''test_node_2'' ''Simple'' ''Hello {name}'')
     = PDict [(''inputs'', PDict [(''template_type'', PTuple [PList [Val (PStr ''Simple''), Val (PStr ''Jinja2'')]]),
                                  (''template'', PTuple [Val (PStr ''STRING''), PDict [(''multiline'', Val (PBool True))]]),
                                  (''save_path'', string_input),
                                  (''name'', string_input)]),
              (''outputs'', PList [output_socket ''name'', output_socket ''formatted_string'',
                                   output_socket ''saved_file_path''])]"
    by (simp add: update_widget_def Let_def k)
  have n: "''non_existent_node'' \<notin> fst ` set [(''test_node_2'', ''Simple'', ''Hello {name}'')]"
    by simp
  from node_config_round_trip
         [where cls = FormatString and node_id = "''test_node_2''" and template_type = "''Simple''"
            and template = "''Hello {name}''"] c
  have 1: "get_node_config (snd (update_widget FormatString ''test_node_2'' ''Simple'' ''Hello {name}''))
       ''test_node_2''
     = PDict [(''inputs'', PDict [(''template_type'', PTuple [PList [Val (PStr ''Simple''), Val (PStr ''Jinja2'')]]),
                                  (''template'', PTuple [Val (PStr ''STRING''), PDict [(''multiline'', Val (PBool True))]]),
                                  (''save_path'', string_input),
                                  (''name'', string_input)]),
              (''outputs'', PList [output_socket ''name'', output_socket ''formatted_string'',
                                   output_socket ''saved_file_path''])]"
    by simp
  from node_config_round_trip
         [where node_id = "''non_existent_node''"
            and calls = "[(''test_node_2'', ''Simple'', ''Hello {name}'')]"] n
  have 2: "get_node_config (update_widgets FormatString [(''test_node_2'', ''Simple'', ''Hello {name}'')])
        ''non_existent_node'' = PDict []"
    by blast
  from 1 n 2 show ?thesis by blast
qed

text \<open>
  C6. The claim has \<open>load_node_state\<close> never raise. It returns the parsed content when the
  file opens and parses, and the empty dictionary when the file does not exist. On any
  other exception of opening or parsing it first prints the text of the exception with
  \<^verbatim>\<open>rich\<close>'s \<^verbatim>\<open>print\<close>: it returns the empty dictionary if \<^verbatim>\<open>print\<close> accepts the text, and
  raises the exception of \<^verbatim>\<open>print\<close> if it does not.
\<close>

theorem load_node_state_outcomes:
  "(\<forall>f d. open_read H w file_path = Inr f \<and> json_load H f = Inr d
          \<longrightarrow> load_node_state H w file_path = Inr d)
   \<and> (\<forall>m. open_read H w file_path = Inl (FileNotFoundError m)
          \<longrightarrow> load_node_state H w file_path = Inr (PDict []))
   \<and> (\<forall>e. (open_read H w file_path = Inl e
             \<or> (\<exists>f. open_read H w file_path = Inr f \<and> json_load H f = Inl e))
            \<and> (\<forall>m. e \<noteq> FileNotFoundError m)
          \<longrightarrow> (rich_print (terminal H) (''Error loading node state: '' @ exc_str e) = None
                 \<longrightarrow> load_node_state H w file_path = Inr (PDict []))
              \<and> (\<forall>e'. rich_print (terminal H) (''Error loading node state: '' @ exc_str e) = Some e'
                 \<longrightarrow> load_node_state H w file_path = Inl e'))"
proof (intro conjI allI impI)
  fix f d assume "open_read H w file_path = Inr f \<and> json_load H f = Inr d"
  then show "load_node_state H w file_path = Inr d"
    by (simp add: load_node_state_def)
next
  fix m assume "open_read H w file_path = Inl (FileNotFoundError m)"
  then show "load_node_state H w file_path = Inr (PDict [])"
    by (simp add: load_node_state_def)
next
  fix e
  assume a: "(open_read H w file_path = Inl e
             \<or> (\<exists>f. open_read H w file_path = Inr f \<and> json_load H f = Inl e))
            \<and> (\<forall>m. e \<noteq> FileNotFoundError m)"
  then have r: "(case open_read H w file_path of Inl e \<Rightarrow> Inl e | Inr f \<Rightarrow> json_load H f) = Inl e"
    by auto
  assume "rich_print (terminal H) (''Error loading node state: '' @ exc_str e) = None"
  with a show "load_node_state H w file_path = Inr (PDict [])"
    unfolding load_node_state_def r by (cases e) simp_all
next
  fix e e'
  assume a: "(open_read H w file_path = Inl e
             \<or> (\<exists>f. open_read H w file_path = Inr f \<and> json_load H f = Inl e))
            \<and> (\<forall>m. e \<noteq> FileNotFoundError m)"
  then have r: "(case open_read H w file_path of Inl e \<Rightarrow> Inl e | Inr f \<Rightarrow> json_load H f) = Inl e"
    by auto
  assume "rich_print (terminal H) (''Error loading node state: '' @ exc_str e) = Some e'"
  with a show "load_node_state H w file_path = Inl e'"
    unfolding load_node_state_def r by (cases e) simp_all
qed

theorem load_node_state_outcomes_witness:
  "load_node_state (memory_host []) [(''/etc/passwd'', NotJson ''root'')] ''/etc/passwd/[/]''
     = Inl (MarkupError (''closing tag '' @ [CHR 0x27] @ ''[/]'' @ [CHR 0x27]
                           @ '' at position 67 has nothing to close''))
   \<and> load_node_state (memory_host [])
      [(''a.json'', Json (PDict [(''template'', Val (PStr ''Hello {name}''))])), (''b.json'', NotJson ''zz'')]
      ''a.json'' = Inr (PDict [(''template'', Val (PStr ''Hello {name}''))])
   \<and> load_node_state (memory_host [])
      [(''a.json'', Json (PDict [(''template'', Val (PStr ''Hello {name}''))])), (''b.json'', NotJson ''zz'')]
      ''b.json'' = Inr (PDict [])
   \<and> load_node_state (memory_host [])
      [(''a.json'', Json (PDict [(''template'', Val (PStr ''Hello {name}''))])), (''b.json'', NotJson ''zz'')]
      ''non_existent_file.json'' = Inr (PDict [])"
proof -
  let ?v = "[(''/etc/passwd'', NotJson ''root'')]"
  let ?e = "OSError (os_message ''[Errno 20] Not a directory'' ''/etc/passwd/[/]'')"
  have o: "open_read (memory_host []) ?v ''/etc/passwd/[/]'' = Inl ?e"
    by code_simp
  have n: "\<forall>m. ?e \<noteq> FileNotFoundError m" by simp
  have p: "rich_print (terminal (memory_host [])) (''Error loading node state: '' @ exc_str ?e)
             = Some (MarkupError (''closing tag '' @ [CHR 0x27] @ ''[/]'' @ [CHR 0x27]
                                    @ '' at position 67 has nothing to close''))"
    by code_simp
  from load_node_state_outcomes [of "memory_host []" ?v "''/etc/passwd/[/]''"] o n p
  have 0: "load_node_state (memory_host []) ?v ''/etc/passwd/[/]''
     = Inl (MarkupError (''closing tag '' @ [CHR 0x27] @ ''[/]'' @ [CHR 0x27]
                           @ '' at position 67 has nothing to close''))"
    by blast
  let ?w = "[(''a.json'', Json (PDict [(''template'', Val (PStr ''Hello {name}''))])), (''b.json'', NotJson ''zz'')]"
  let ?j = "JSONDecodeError ''Expecting value: line 1 column 1 (char 0)''"
  have a: "open_read (memory_host []) ?w ''a.json''
             = Inr (Json (PDict [(''template'', Val (PStr ''Hello {name}''))]))
           \<and> json_load (memory_host []) (Json (PDict [(''template'', Val (PStr ''Hello {name}''))]))
             = Inr (PDict [(''template'', Val (PStr ''Hello {name}''))])"
    by (simp add: memory_host_def)
  have b: "open_read (memory_host []) ?w ''b.json'' = Inr (NotJson ''zz'')
           \<and> json_load (memory_host []) (NotJson ''zz'') = Inl ?j"
    by (simp add: memory_host_def)
  have bn: "\<forall>m. ?j \<noteq> FileNotFoundError m" by simp
  have bp: "rich_print (terminal (memory_host [])) (''Error loading node state: '' @ exc_str ?j) = None"
    by code_simp
  have c: "open_read (memory_host []) ?w ''non_existent_file.json''
             = Inl (FileNotFoundError
                      (os_message ''[Errno 2] No such file or directory'' ''non_existent_file.json''))"
    by code_simp
  from load_node_state_outcomes [of "memory_host []" ?w "''a.json''"] a
  have 1: "load_node_state (memory_host []) ?w ''a.json''
             = Inr (PDict [(''template'', Val (PStr ''Hello {name}''))])" by blast
  from load_node_state_outcomes [of "memory_host []" ?w "''b.json''"] b bn bp
  have 2: "load_node_state (memory_host []) ?w ''b.json'' = Inr (PDict [])" by blast
  from load_node_state_outcomes [of "memory_host []" ?w "''non_existent_file.json''"] c
  have 3: "load_node_state (memory_host []) ?w ''non_existent_file.json'' = Inr (PDict [])" by blast
  from 0 1 2 3 show ?thesis by blast
qed

end
